theory Spec2Isabelle
  imports Complex_Main
begin

section \<open>Room client of tailchat-meeting (src/app/src/RoomClient.ts)\<close>

text \<open>
  A number of the program is an IEEE 754 double. A finite double is modelled by the
  rational it denotes (\<open>rat\<close>). \<open>getResolutionScalings\<close> only takes maxima and
  powers of two of its numbers. Where the program multiplies and divides
  (\<open>adaptConsumerPreferredLayers\<close>), each result is rounded to the nearest double, as
  defined below. Counters and indices are natural numbers.
\<close>

subsection \<open>getResolutionScalings\<close>

text \<open>
  An RTP encoding, with the two fields \<open>getResolutionScalings\<close> reads. A field that is
  \<open>undefined\<close> in the source is \<open>None\<close>.
\<close>

record encoding =
  scalabilityMode :: "string option"
  scaleResolutionDownBy :: "rat option"

text \<open>
  \<open>mediasoupClient.parseScalabilityMode\<close> belongs to the external library
  mediasoup-client; \<open>getResolutionScalings\<close> takes it as the parameter \<open>psm\<close>, which
  returns the pair (spatialLayers, temporalLayers).
\<close>

type_synonym scalability_parser = "string option \<Rightarrow> nat \<times> nat"

text \<open>The SVC loop: \<open>for (i = 0; i < spatialLayers; i++) push(2 ** (spatialLayers - i - 1))\<close>.\<close>

function svcLoop :: "nat \<Rightarrow> nat \<Rightarrow> rat list \<Rightarrow> rat list" where
  "svcLoop spatialLayers i resolutionScalings =
     (if i < spatialLayers
      then svcLoop spatialLayers (i + 1) (resolutionScalings @ [2 ^ (spatialLayers - i - 1)])
      else resolutionScalings)"
  by pat_completeness auto
termination
  by (relation "measure (\<lambda>(spatialLayers, i, rs). spatialLayers - i)") auto

declare svcLoop.simps [simp del]

text \<open>
  The first \<open>forEach\<close> of the simulcast branch; the state is the flag
  \<open>scaleResolutionDownByDefined\<close> and the array built so far.
\<close>

fun simulcastLoop :: "encoding list \<Rightarrow> bool \<times> rat list \<Rightarrow> bool \<times> rat list" where
  "simulcastLoop [] st = st"
| "simulcastLoop (e # es) (scaleResolutionDownByDefined, resolutionScalings) =
     (case scaleResolutionDownBy e of
        Some s \<Rightarrow> simulcastLoop es (True, resolutionScalings @ [max 1 s])
      | None \<Rightarrow> simulcastLoop es (scaleResolutionDownByDefined, resolutionScalings @ [1]))"

text \<open>
  The second \<open>forEach\<close>:
  \<open>resolutionScalings[index] = 2 ** (encodings.length - index - 1)\<close> for every index of
  \<open>encodings\<close>; each index is within the array, which the first loop filled.
\<close>

definition defaultLoop :: "nat \<Rightarrow> rat list \<Rightarrow> rat list" where
  "defaultLoop n resolutionScalings =
     foldl (\<lambda>rs index. rs[index := 2 ^ (n - index - 1)]) resolutionScalings [0..<n]"

definition getResolutionScalings :: "scalability_parser \<Rightarrow> encoding list \<Rightarrow> rat list" where
  "getResolutionScalings psm encodings =
     (if length encodings = 1
      then svcLoop (fst (psm (scalabilityMode (encodings ! 0)))) 0 []
      else (case simulcastLoop encodings (False, []) of
              (scaleResolutionDownByDefined, resolutionScalings) \<Rightarrow>
                if \<not> scaleResolutionDownByDefined
                then defaultLoop (length encodings) resolutionScalings
                else resolutionScalings))"

text \<open>
  Modelled from the spec: \<open>parseScalabilityMode\<close> is not under src/ (it is
  mediasoup-client's); the spec says it parses \<open>spatialLayers\<close> out of the scalability
  mode. This definition reads a mode of the shape \<open>[LS]<n>T<m>...\<close>, with \<open>n\<close> and
  \<open>m\<close> of one or two digits not starting with 0, and answers (1, 1) for anything else,
  \<open>undefined\<close> included. It serves as a concrete parser to instantiate \<open>psm\<close>.
\<close>

definition digitVal :: "char \<Rightarrow> nat option" where
  "digitVal c = (let k = of_char c :: nat in if 48 \<le> k \<and> k \<le> 57 then Some (k - 48) else None)"

text \<open>The readings of \<open>[1-9]\\d{0,1}\<close> at the head of a string, the longer one first.\<close>

definition layerCount :: "string \<Rightarrow> (nat \<times> string) list" where
  "layerCount s =
     (case s of
        [] \<Rightarrow> []
      | c # r \<Rightarrow>
          (case digitVal c of
             None \<Rightarrow> []
           | Some a \<Rightarrow>
               if a = 0 then []
               else (case r of
                       [] \<Rightarrow> [(a, r)]
                     | d # r' \<Rightarrow>
                         (case digitVal d of
                            None \<Rightarrow> [(a, r)]
                          | Some b \<Rightarrow> [(10 * a + b, r'), (a, r)]))))"

definition parseScalabilityMode :: scalability_parser where
  "parseScalabilityMode mode =
     (case mode of
        None \<Rightarrow> (1, 1)
      | Some s \<Rightarrow>
          (case s of
             [] \<Rightarrow> (1, 1)
           | c # r \<Rightarrow>
               if c = CHR ''L'' \<or> c = CHR ''S''
               then (case [(n, m). (n, t) \<leftarrow> layerCount r, (m, u) \<leftarrow> layerCount (drop 1 t),
                                   take 1 t = ''T''] of
                       [] \<Rightarrow> (1, 1)
                     | nm # _ \<Rightarrow> nm)
               else (1, 1)))"

text \<open>What the claim says each branch returns.\<close>

definition powersOfTwoDown :: "nat \<Rightarrow> rat list" where
  "powersOfTwoDown n = map (\<lambda>i. 2 ^ (n - i - 1)) [0..<n]"

definition clampedScaling :: "encoding \<Rightarrow> rat" where
  "clampedScaling e = (case scaleResolutionDownBy e of Some s \<Rightarrow> max 1 s | None \<Rightarrow> 1)"

subsection \<open>Double arithmetic\<close>

text \<open>
  The result of an arithmetic operation of the program: a finite double, an infinity or
  NaN. The sign of a zero is not modelled; it shows only when a zero is a divisor, and a
  zero divisor is taken as +0.
\<close>

datatype jsnum = Fin rat | PosInf | NegInf | NaN

text \<open>The number of binary digits of a positive integer.\<close>

function bits :: "int \<Rightarrow> int" where
  "bits n = (if n \<le> 0 then 0 else 1 + bits (n div 2))"
  by pat_completeness auto
termination
  by (relation "measure nat") auto

declare bits.simps [simp del]

text \<open>For \<open>x > 0\<close>, the integer \<open>k\<close> with \<open>2^k \<le> x < 2^(k+1)\<close>.\<close>

definition ilog2 :: "rat \<Rightarrow> int" where
  "ilog2 x = (if 1 \<le> x then bits \<lfloor>x\<rfloor> - 1 else - bits (\<lceil>1 / x\<rceil> - 1))"

text \<open>Rounding to the nearest integer, a tie to the even one.\<close>

definition rne :: "rat \<Rightarrow> int" where
  "rne x = (let f = \<lfloor>x\<rfloor>; d = x - of_int f
            in if d < 1 / 2 then f else if 1 / 2 < d then f + 1
               else if even f then f else f + 1)"

text \<open>
  Binary64: 53 significant bits, the doubles around \<open>x > 0\<close> are the multiples of
  \<open>2^(expo x)\<close>, down to \<open>2^(-1074)\<close> for the subnormal ones; \<open>nearest x\<close> is the
  one \<open>x\<close> rounds to when the exponent is not bounded above, and a result of
  \<open>2^1024\<close> or more is an overflow.
\<close>

definition expo :: "rat \<Rightarrow> int" where
  "expo x = max (ilog2 x - 52) (- 1074)"

definition nearest :: "rat \<Rightarrow> rat" where
  "nearest x = of_int (rne (x / 2 powi (expo x))) * 2 powi (expo x)"

definition roundPos :: "rat \<Rightarrow> jsnum" where
  "roundPos x = (if 2 ^ 1024 \<le> nearest x then PosInf else Fin (nearest x))"

text \<open>The double an exact result is rounded to (round to nearest, ties to even).\<close>

definition toDouble :: "rat \<Rightarrow> jsnum" where
  "toDouble x =
     (if x = 0 then Fin 0
      else if 0 < x then roundPos x
      else (case roundPos (- x) of Fin r \<Rightarrow> Fin (- r) | other \<Rightarrow> NegInf))"

text \<open>The rationals that are doubles.\<close>

definition isDouble :: "rat \<Rightarrow> bool" where
  "isDouble x = (toDouble x = Fin x)"

text \<open>\<open>x * y\<close> on two finite doubles.\<close>

definition jsMul :: "rat \<Rightarrow> rat \<Rightarrow> jsnum" where
  "jsMul x y = toDouble (x * y)"

text \<open>
  \<open>n / d\<close>, where \<open>n\<close> is a result and \<open>d\<close> a finite double or \<open>undefined\<close>
  (an array read out of range): dividing by \<open>undefined\<close> gives NaN, dividing by zero an
  infinity or NaN.
\<close>

definition jsDiv :: "jsnum \<Rightarrow> rat option \<Rightarrow> jsnum" where
  "jsDiv n d =
     (case d of
        None \<Rightarrow> NaN
      | Some y \<Rightarrow>
          (case n of
             Fin x \<Rightarrow>
               if y \<noteq> 0 then toDouble (x / y)
               else if 0 < x then PosInf else if x < 0 then NegInf else NaN
           | PosInf \<Rightarrow> if 0 \<le> y then PosInf else NegInf
           | NegInf \<Rightarrow> if 0 \<le> y then NegInf else PosInf
           | NaN \<Rightarrow> NaN))"


text \<open>\<open>v >= n\<close> and \<open>v < n\<close> for a finite double \<open>v\<close>; comparisons with NaN are false.\<close>

fun jsGe :: "rat \<Rightarrow> jsnum \<Rightarrow> bool" where
  "jsGe v (Fin x) = (x \<le> v)"
| "jsGe v PosInf = False"
| "jsGe v NegInf = True"
| "jsGe v NaN = False"


text \<open>An array read \<open>xs[i]\<close>: \<open>undefined\<close> out of range.\<close>

definition nthOpt :: "'a list \<Rightarrow> nat \<Rightarrow> 'a option" where
  "nthOpt xs i = (if i < length xs then Some (xs ! i) else None)"

subsection \<open>Configuration\<close>

text \<open>
  The configuration object (\<open>./config\<close>) is not under src/; the fields the modelled
  functions read are the fields of this record. \<open>adaptiveScalingFactor\<close> may be absent.
\<close>

record config =
  requestTimeout :: nat
  requestRetries :: nat
  adaptiveScalingFactor :: "rat option"

subsection \<open>Consumers in the store\<close>

datatype media_kind = audio | video

datatype consumer_type = simple | simulcast | svc

text \<open>
  \<open>ConsumerType\<close>, the consumer object kept in the store (built in the
  \<open>newConsumer\<close> handler), with the fields the modelled functions read or write;
  \<open>rtpParameters\<close>, \<open>codec\<close>, \<open>track\<close>, \<open>score\<close>, \<open>audioGain\<close> and
  \<open>opusConfig\<close> are left out. The source's \<open>id\<close> and \<open>type\<close> are \<open>consumerId\<close>
  and \<open>ctype\<close> here.
\<close>

record ConsumerType =
  consumerId :: string
  peerId :: string
  kind :: media_kind
  ctype :: consumer_type
  locallyPaused :: bool
  remotelyPaused :: bool
  source :: string
  width :: rat
  height :: rat
  resolutionScalings :: "rat list"
  spatialLayers :: nat
  temporalLayers :: int
  preferredSpatialLayer :: nat
  preferredTemporalLayer :: int
  priority :: nat

subsection \<open>adaptConsumerPreferredLayers\<close>

text \<open>\<open>Math.min(Math.max(config.adaptiveScalingFactor || 0.75, 0.5), 1.0)\<close>\<close>

definition scalingFactor :: "config \<Rightarrow> rat" where
  "scalingFactor cfg =
     min (max (case adaptiveScalingFactor cfg of
                 None \<Rightarrow> 3 / 4
               | Some f \<Rightarrow> if f = 0 then 3 / 4 else f) (1 / 2)) 1"

text \<open>
  The loop over the spatial levels, with its \<open>break\<close>; \<open>i\<close> is the loop index and
  \<open>newPreferredSpatialLayer\<close> the variable it assigns.
\<close>

function spatialLoop ::
  "rat \<Rightarrow> ConsumerType \<Rightarrow> rat \<Rightarrow> rat \<Rightarrow> nat \<Rightarrow> nat \<Rightarrow> nat" where
  "spatialLoop F c viewportWidth viewportHeight i newPreferredSpatialLayer =
     (if i < length (resolutionScalings c)
      then (let levelWidth = jsDiv (jsMul F (width c)) (nthOpt (resolutionScalings c) i);
                levelHeight = jsDiv (jsMul F (height c)) (nthOpt (resolutionScalings c) i)
            in if jsGe viewportWidth levelWidth \<or> jsGe viewportHeight levelHeight
               then spatialLoop F c viewportWidth viewportHeight (i + 1) i
               else newPreferredSpatialLayer)
      else newPreferredSpatialLayer)"
  by pat_completeness auto
termination
  by (relation "measure (\<lambda>(F, c, vw, vh, i, n). length (resolutionScalings c) - i)") auto

declare spatialLoop.simps [simp del]

definition newPreferredSpatialLayer :: "config \<Rightarrow> ConsumerType \<Rightarrow> rat \<Rightarrow> rat \<Rightarrow> nat" where
  "newPreferredSpatialLayer cfg c viewportWidth viewportHeight =
     spatialLoop (scalingFactor cfg) c viewportWidth viewportHeight 0 0"




text \<open>
  The size of the spatial level \<open>i\<close>, \<open>F\<cdot>width/resolutionScalings[i]\<close> and
  \<open>F\<cdot>height/resolutionScalings[i]\<close>, as the program computes it: the product rounded
  to a double, then the quotient rounded to a double.
\<close>

definition levelWidth :: "rat \<Rightarrow> ConsumerType \<Rightarrow> nat \<Rightarrow> jsnum" where
  "levelWidth F c i = jsDiv (jsMul F (width c)) (Some (resolutionScalings c ! i))"

definition levelHeight :: "rat \<Rightarrow> ConsumerType \<Rightarrow> nat \<Rightarrow> jsnum" where
  "levelHeight F c i = jsDiv (jsMul F (height c)) (Some (resolutionScalings c ! i))"



text \<open>The consumer of the specification's example, with three temporal layers.\<close>

definition exampleConsumer :: ConsumerType where
  "exampleConsumer =
     \<lparr>consumerId = ''c1'', peerId = ''p1'', kind = video, ctype = simulcast,
      locallyPaused = False, remotelyPaused = False, source = ''webcam'',
      width = 1280, height = 720, resolutionScalings = [4, 2, 1],
      spatialLayers = 3, temporalLayers = 3,
      preferredSpatialLayer = 2, preferredTemporalLayer = 2, priority = 1\<rparr>"

definition exampleConfig :: config where
  "exampleConfig = \<lparr>requestTimeout = 20000, requestRetries = 3, adaptiveScalingFactor = Some (3 / 4)\<rparr>"



text \<open>
  A configuration whose factor is the double that the literal \<open>0.55\<close> denotes, and a
  consumer of a 1000 by 1000 source with the scalings \<open>[2, 1]\<close>.
\<close>

definition factor055 :: rat where
  "factor055 = 2476979795053773 / 4503599627370496"



subsection \<open>Signaling requests: timeoutCallback, sendRequest\<close>

text \<open>
  What a promise of the client can be rejected with: the \<open>SocketTimeoutError\<close> of
  \<open>timeoutCallback\<close>, a plain string (\<open>reject('No socket connection')\<close>), the error
  object an acknowledgement carries (with its flag \<open>notFoundInMediasoupError\<close>), an
  \<open>Error\<close> thrown with a message, or a \<open>TypeError\<close> of the runtime.
\<close>

datatype error =
    SocketTimeoutError
  | Rejection string
  | AckError bool
  | Error string
  | TypeError

type_synonym response = string

text \<open>
  The behaviour of the signaling channel for one \<open>emit\<close>: the acknowledgement never
  comes, or it comes after some milliseconds with the pair \<open>(err, response)\<close>.
\<close>

datatype reply = NoReply | Reply nat "error option" response

text \<open>
  \<open>timeoutCallback\<close> wraps the acknowledgement callback and arms a timer of
  \<open>config.requestTimeout\<close> ms; whichever comes first calls the callback, once. The
  result is what the callback is called with, and after how many milliseconds.
\<close>

definition timeoutCallback :: "config \<Rightarrow> reply \<Rightarrow> (error option \<times> response option) \<times> nat" where
  "timeoutCallback cfg r =
     (case r of
        NoReply \<Rightarrow> ((Some SocketTimeoutError, None), requestTimeout cfg)
      | Reply d err resp \<Rightarrow>
          if d < requestTimeout cfg then ((err, Some resp), d)
          else ((Some SocketTimeoutError, None), requestTimeout cfg))"

text \<open>The signaling socket; \<open>emit\<close> needs it to exist.\<close>

record Socket =
  socketClosed :: bool

text \<open>
  \<open>_sendRequest\<close>, named \<open>sendRequest1\<close> here: the promise is rejected (\<open>Inl\<close>) or resolved (\<open>Inr\<close>), after
  the given time. A request that was acknowledged without a response resolves with
  \<open>undefined\<close>, which is \<open>None\<close>.
\<close>

definition sendRequest1 ::
  "config \<Rightarrow> Socket option \<Rightarrow> reply \<Rightarrow> (error + response option) \<times> nat" where
  "sendRequest1 cfg signalingSocket r =
     (case signalingSocket of
        None \<Rightarrow> (Inl (Rejection ''No socket connection''), 0)
      | Some sock \<Rightarrow>
          (case timeoutCallback cfg r of
             ((Some err, response), d) \<Rightarrow> (Inl err, d)
           | ((None, response), d) \<Rightarrow> (Inr response, d)))"

text \<open>
  How a call of \<open>sendRequest\<close> settles: resolved with a response (\<open>undefined\<close> is
  \<open>None\<close>) or rejected with an error; how many times it called \<open>_sendRequest\<close>; the
  milliseconds spent waiting.
\<close>

datatype settled = Resolved "response option" | Rejected error

record sent =
  outcome :: settled
  attempts :: nat
  elapsed :: nat

text \<open>
  The loop of \<open>sendRequest\<close>; \<open>net tries\<close> is the behaviour of the channel for the
  \<open>emit\<close> of the attempt numbered \<open>tries\<close>. When the loop ends without a
  \<open>return\<close> or a \<open>throw\<close>, the async function returns \<open>undefined\<close>.
\<close>

function sendRequestLoop ::
  "config \<Rightarrow> Socket option \<Rightarrow> (nat \<Rightarrow> reply) \<Rightarrow> nat \<Rightarrow> nat \<Rightarrow> sent" where
  "sendRequestLoop cfg signalingSocket net tries waited =
     (if tries < requestRetries cfg
      then (case sendRequest1 cfg signalingSocket (net tries) of
              (Inr response, d) \<Rightarrow>
                \<lparr>outcome = Resolved response, attempts = tries + 1, elapsed = waited + d\<rparr>
            | (Inl err, d) \<Rightarrow>
                if err = SocketTimeoutError \<and> tries < requestRetries cfg
                then sendRequestLoop cfg signalingSocket net (tries + 1) (waited + d)
                else \<lparr>outcome = Rejected err, attempts = tries + 1, elapsed = waited + d\<rparr>)
      else \<lparr>outcome = Resolved None, attempts = tries, elapsed = waited\<rparr>)"
  by pat_completeness auto
termination
  by (relation "measure (\<lambda>(cfg, sock, net, tries, waited). requestRetries cfg - tries)") auto

declare sendRequestLoop.simps [simp del]

definition sendRequest :: "config \<Rightarrow> Socket option \<Rightarrow> (nat \<Rightarrow> reply) \<Rightarrow> sent" where
  "sendRequest cfg signalingSocket net = sendRequestLoop cfg signalingSocket net 0 0"

subsection \<open>ICE restart: restartIce and its timers\<close>

text \<open>A mediasoup transport, as far as the client looks at it.\<close>

record Transport =
  transportId :: string
  transportClosed :: bool

text \<open>
  \<open>RestartICEParams\<close>: the handle of the last timer and the flag. A handle is the
  number \<open>setTimeout\<close> returned; \<open>null\<close> is \<open>None\<close>.
\<close>

record RestartICEParams =
  timer :: "nat option"
  restarting :: bool

text \<open>
  The two functions \<open>restartIce\<close> hands to \<open>setTimeout\<close>, with the variables they
  close over: the async function that makes a restart attempt, and the function that
  calls \<open>restartIce(transport, ice, delay * 2)\<close> after a failure.
\<close>

datatype callback = Attempt Transport nat | Retry Transport nat

text \<open>
  One transport with its \<open>RestartICEParams\<close> and the part of the event loop that
  concerns it: the time in ms, the timers that are set (handle, time due, callback), the
  next handle, the restart attempts that await the answer to their request or the end of
  \<open>transport.restartIce\<close> (each with the variables of its closure), and the \<open>restartIce\<close>
  requests sent so far (time, transport id).
\<close>

record IceSystem =
  transport :: "Transport option"
  ice :: RestartICEParams
  clock :: nat
  pending :: "(nat \<times> nat \<times> callback) list"
  nextTimer :: nat
  inFlight :: "(Transport \<times> nat) list"
  issued :: "(nat \<times> string) list"

definition setTimeout :: "callback \<Rightarrow> nat \<Rightarrow> IceSystem \<Rightarrow> nat \<times> IceSystem" where
  "setTimeout cb delay s =
     (nextTimer s,
      s\<lparr>pending := pending s @ [(nextTimer s, clock s + delay, cb)],
        nextTimer := nextTimer s + 1\<rparr>)"

definition clearTimeout :: "nat option \<Rightarrow> IceSystem \<Rightarrow> IceSystem" where
  "clearTimeout handle s =
     (case handle of
        None \<Rightarrow> s
      | Some h \<Rightarrow> s\<lparr>pending := filter (\<lambda>(h', due, cb). h' \<noteq> h) (pending s)\<rparr>)"

text \<open>
  \<open>restartIce(transport, ice, delay)\<close>. The \<open>ice\<close> object is the one of the system
  (the client never passes a null one).
\<close>

definition restartIce :: "Transport option \<Rightarrow> nat \<Rightarrow> IceSystem \<Rightarrow> IceSystem" where
  "restartIce tr delay s =
     (case tr of
        None \<Rightarrow> s
      | Some t \<Rightarrow>
          (let s1 = clearTimeout (timer (ice s)) s;
               (h, s2) = setTimeout (Attempt t delay) delay s1
           in s2\<lparr>ice := (ice s2)\<lparr>timer := Some h\<rparr>\<rparr>))"

text \<open>
  The body of a timer's callback. An attempt returns at once when \<open>ice.restarting\<close> is
  set; otherwise it sets the flag and then sends the request \<open>restartIce\<close>, and stays
  in flight until \<open>settle\<close>.
\<close>

definition runCallback :: "callback \<Rightarrow> IceSystem \<Rightarrow> IceSystem" where
  "runCallback cb s =
     (case cb of
        Attempt t delay \<Rightarrow>
          if restarting (ice s) then s
          else (let s1 = s\<lparr>ice := (ice s)\<lparr>restarting := True\<rparr>\<rparr>
                in s1\<lparr>issued := issued s1 @ [(clock s1, transportId t)],
                      inFlight := inFlight s1 @ [(t, delay)]\<rparr>)
      | Retry t delay \<Rightarrow> restartIce (Some t) (delay * 2) s)"

text \<open>
  The timer with handle \<open>h\<close> fires: not before it is due, and once. A handle that is
  not set does nothing.
\<close>

definition fire :: "nat \<Rightarrow> IceSystem \<Rightarrow> IceSystem" where
  "fire h s =
     (case find (\<lambda>(h', due, cb). h' = h) (pending s) of
        None \<Rightarrow> s
      | Some (h', due, cb) \<Rightarrow>
          runCallback cb
            (s\<lparr>clock := max (clock s) due,
               pending := filter (\<lambda>(h', due, cb). h' \<noteq> h) (pending s)\<rparr>))"

text \<open>
  The attempt at position \<open>i\<close> of the attempts in flight ends: \<open>ok\<close> when the request
  and \<open>transport.restartIce\<close> both succeeded, otherwise the \<open>catch\<close> block runs.
\<close>

definition settle :: "nat \<Rightarrow> bool \<Rightarrow> IceSystem \<Rightarrow> IceSystem" where
  "settle i ok s =
     (if i < length (inFlight s)
      then (let (t, delay) = inFlight s ! i;
                s1 = s\<lparr>inFlight := take i (inFlight s) @ drop (i + 1) (inFlight s)\<rparr>
            in if ok then s1\<lparr>ice := (ice s1)\<lparr>restarting := False\<rparr>\<rparr>
               else (let s2 = s1\<lparr>ice := (ice s1)\<lparr>restarting := False\<rparr>\<rparr>;
                         (h, s3) = setTimeout (Retry t delay) delay s2
                     in s3\<lparr>ice := (ice s3)\<lparr>timer := Some h\<rparr>\<rparr>))
      else s)"

text \<open>
  The handler of \<open>connectionstatechange\<close> on the transport: \<open>disconnected\<close> and
  \<open>failed\<close> start \<open>restartIce\<close> with 2000 ms, any other state clears the timer.
\<close>

definition connectionstatechange :: "string \<Rightarrow> IceSystem \<Rightarrow> IceSystem" where
  "connectionstatechange connectState s =
     (if connectState = ''disconnected'' \<or> connectState = ''failed''
      then restartIce (transport s) 2000 s
      else clearTimeout (timer (ice s)) s)"

text \<open>What can happen to the system, and a run of such events.\<close>

datatype event = StateChange string | Fire nat | Settle nat bool | Tick nat

fun step :: "IceSystem \<Rightarrow> event \<Rightarrow> IceSystem" where
  "step s (StateChange connectState) = connectionstatechange connectState s"
| "step s (Fire h) = fire h s"
| "step s (Settle i ok) = settle i ok s"
| "step s (Tick ms) = s\<lparr>clock := clock s + ms\<rparr>"

definition run :: "event list \<Rightarrow> IceSystem \<Rightarrow> IceSystem" where
  "run evs s = foldl step s evs"

text \<open>The system when the transport has been created: no timer, no restart.\<close>

definition iceInit :: "Transport \<Rightarrow> IceSystem" where
  "iceInit t =
     \<lparr>transport = Some t, ice = \<lparr>timer = None, restarting = False\<rparr>, clock = 0,
      pending = [], nextTimer = 0, inFlight = [], issued = []\<rparr>"

definition exampleTransport :: Transport where
  "exampleTransport = \<lparr>transportId = ''t1'', transportClosed = False\<rparr>"

text \<open>
  At most one restart attempt is in flight, and the flag is set exactly while one is.
\<close>

definition singleFlight :: "IceSystem \<Rightarrow> bool" where
  "singleFlight s = (length (inFlight s) \<le> 1 \<and> (restarting (ice s) \<longleftrightarrow> inFlight s \<noteq> []))"

subsection \<open>The client, the store and the outside world\<close>

text \<open>
  The mediasoup objects the client holds, with the fields it reads and the flags its
  calls change: \<open>producer.id\<close>, \<open>producer.paused\<close>, \<open>producer.closed\<close>,
  \<open>producer.track\<close>; \<open>consumer.id\<close>, \<open>consumer.kind\<close>, \<open>consumer.appData.peerId\<close>,
  \<open>consumer.appData.source\<close>, \<open>consumer.paused\<close>, \<open>consumer.closed\<close>, and
  whether \<open>consumer.hark\<close> is set.
\<close>

record Producer =
  producer_id :: string
  producer_paused :: bool
  producer_closed :: bool
  producer_track :: string

record Consumer =
  consumer_id :: string
  consumer_kind :: media_kind
  appData_peerId :: string
  appData_source :: string
  consumer_paused :: bool
  consumer_closed :: bool
  consumer_hark :: bool

text \<open>The mediasoup device: what it can produce.\<close>

record Device =
  canProduce :: "media_kind \<Rightarrow> bool"

text \<open>
  The fields of \<open>RoomClient\<close> that the modelled methods use. \<open>_closed\<close> is
  \<open>closedFlag\<close>; a Map is the list of its values in insertion order, which is the order
  \<open>values()\<close> iterates in.
\<close>

record RoomClient =
  closedFlag :: bool
  signalingSocket :: "Socket option"
  mediasoupDevice :: "Device option"
  sendTransport :: "Transport option"
  recvTransport :: "Transport option"
  micProducer :: "Producer option"
  webcamProducer :: "Producer option"
  screenSharingProducer :: "Producer option"
  extraVideoProducers :: "Producer list"
  consumersMap :: "Consumer list"

datatype room_state = state_new | state_connecting | state_connected | state_closed

datatype originator = local | remote

text \<open>The part of the store the modelled methods change or the claims speak about.\<close>

record Store =
  roomState :: room_state
  spotlights :: "string list"
  selectedPeers :: "string list"
  peers :: "string list"
  consumers :: "ConsumerType list"
  producers :: "(string \<times> bool) list"
  audioMuted :: bool
  audioInProgress :: bool
  selectedAudioDevice :: "string option"
  notifications :: "string list"

text \<open>
  The actions the modelled methods dispatch: \<open>roomActions.setRoomState\<close>,
  \<open>roomActions.set('spotlights', \<dots>)\<close>, \<open>roomActions.removeSelectedPeer\<close>,
  \<open>roomActions.clearSpotlights\<close>, \<open>peersActions.clearPeers\<close>,
  \<open>consumersActions.clearConsumers\<close>, \<open>producersActions.removeProducer\<close>,
  \<open>consumersActions.removeConsumer\<close>, \<open>consumersActions.setConsumerPaused\<close> and
  \<open>setConsumerResumed\<close>, \<open>producersActions.setProducerPaused\<close> and
  \<open>setProducerResumed\<close>, \<open>settingsActions.set\<close> of \<open>audioMuted\<close> and of
  \<open>selectedAudioDevice\<close>, \<open>meActions.setAudioInProgress\<close>, the three
  \<open>peersActions.setPeer\<dots>InProgress\<close> (peer, kind of media, flag) and \<open>notifyAction\<close>
  (the id of the message).
\<close>

datatype action =
    SetRoomState room_state
  | SetSpotlights "string list"
  | RemoveSelectedPeer string
  | ClearSpotlights
  | ClearPeers
  | ClearConsumers
  | RemoveProducer string
  | RemoveConsumer string string
  | SetConsumerPaused string originator
  | SetConsumerResumed string originator
  | SetProducerPaused string
  | SetProducerResumed string
  | SetAudioMuted bool
  | SetSelectedAudioDevice string
  | SetAudioInProgress bool
  | SetPeerInProgress string string bool
  | Notify string

text \<open>
  Modelled from the spec: the reducers of the store slices (\<open>./store/slices/*\<close>) are
  not under src/. The specification's data model gives the room state its \<open>state\<close>,
  \<open>spotlights\<close> and \<open>selectedPeers\<close>, and a consumer its \<open>locallyPaused\<close> and
  \<open>remotelyPaused\<close>; an action sets, clears or removes what its name says, and
  \<open>setConsumerPaused\<close> and \<open>setConsumerResumed\<close> set the flag of their originator.
  The in-progress flags of peers are outside this record.
\<close>

fun reduce :: "action \<Rightarrow> Store \<Rightarrow> Store" where
  "reduce (SetRoomState st) s = s\<lparr>roomState := st\<rparr>"
| "reduce (SetSpotlights sp) s = s\<lparr>spotlights := sp\<rparr>"
| "reduce (RemoveSelectedPeer p) s = s\<lparr>selectedPeers := filter (\<lambda>q. q \<noteq> p) (selectedPeers s)\<rparr>"
| "reduce ClearSpotlights s = s\<lparr>spotlights := []\<rparr>"
| "reduce ClearPeers s = s\<lparr>peers := []\<rparr>"
| "reduce ClearConsumers s = s\<lparr>consumers := []\<rparr>"
| "reduce (RemoveProducer i) s = s\<lparr>producers := filter (\<lambda>(j, p). j \<noteq> i) (producers s)\<rparr>"
| "reduce (RemoveConsumer i p) s =
     s\<lparr>consumers := filter (\<lambda>c. consumerId c \<noteq> i) (consumers s)\<rparr>"
| "reduce (SetConsumerPaused i orig) s =
     s\<lparr>consumers := map (\<lambda>c. if consumerId c = i
                              then (if orig = local then c\<lparr>locallyPaused := True\<rparr>
                                    else c\<lparr>remotelyPaused := True\<rparr>)
                              else c) (consumers s)\<rparr>"
| "reduce (SetConsumerResumed i orig) s =
     s\<lparr>consumers := map (\<lambda>c. if consumerId c = i
                              then (if orig = local then c\<lparr>locallyPaused := False\<rparr>
                                    else c\<lparr>remotelyPaused := False\<rparr>)
                              else c) (consumers s)\<rparr>"
| "reduce (SetProducerPaused i) s =
     s\<lparr>producers := map (\<lambda>(j, p). if j = i then (j, True) else (j, p)) (producers s)\<rparr>"
| "reduce (SetProducerResumed i) s =
     s\<lparr>producers := map (\<lambda>(j, p). if j = i then (j, False) else (j, p)) (producers s)\<rparr>"
| "reduce (SetAudioMuted b) s = s\<lparr>audioMuted := b\<rparr>"
| "reduce (SetSelectedAudioDevice d) s = s\<lparr>selectedAudioDevice := Some d\<rparr>"
| "reduce (SetAudioInProgress b) s = s\<lparr>audioInProgress := b\<rparr>"
| "reduce (SetPeerInProgress p t b) s = s"
| "reduce (Notify m) s = s\<lparr>notifications := notifications s @ [m]\<rparr>"

text \<open>
  The calls the client makes on objects outside it, in the order it makes them: on the
  socket, the transports, the producers and consumers, the tracks, the spotlights manager
  (\<open>this._spotlights\<close>, whose class is not under src/), \<open>sendRequest\<close> (method and the
  id it is about), and the reload of the page at the end of \<open>close\<close>.
\<close>

datatype effect =
    SocketClose
  | TransportClose string
  | ProducerClose string
  | ProducerPause string
  | ProducerResume string
  | ConsumerPause string
  | ConsumerResume string
  | ConsumerClose string
  | HarkStop string
  | TrackStop string
  | SpotlightsCall string string
  | Request string string
  | Navigate

text \<open>The lines the client writes with \<open>logger\<close>.\<close>

datatype logline = LogDebug string | LogWarn string | LogError string error

record World =
  client :: RoomClient
  store :: Store
  effects :: "effect list"
  logger :: "logline list"

definition dispatch :: "action \<Rightarrow> World \<Rightarrow> World" where
  "dispatch a w = w\<lparr>store := reduce a (store w)\<rparr>"

definition perform :: "effect \<Rightarrow> World \<Rightarrow> World" where
  "perform e w = w\<lparr>effects := effects w @ [e]\<rparr>"

definition logline :: "logline \<Rightarrow> World \<Rightarrow> World" where
  "logline l w = w\<lparr>logger := logger w @ [l]\<rparr>"

text \<open>
  The signaling channel as the client meets it: for a request (method, id) and the
  number of the attempt, how the \<open>emit\<close> is answered.
\<close>

type_synonym network = "string \<Rightarrow> string \<Rightarrow> nat \<Rightarrow> reply"

text \<open>\<open>await this.sendRequest(method, data)\<close> from a method of the client.\<close>

definition request :: "config \<Rightarrow> network \<Rightarrow> string \<Rightarrow> string \<Rightarrow> World \<Rightarrow> settled \<times> World" where
  "request cfg net method data w =
     (outcome (sendRequest cfg (signalingSocket (client w)) (net method data)),
      perform (Request method data) w)"


subsection \<open>close and the handler of the socket's disconnect event\<close>

text \<open>
  \<open>if (this._sendTransport) this._sendTransport.close()\<close>, and the same for the
  receiving transport. What mediasoup-client does of its own when a transport closes (the
  \<open>transportclose\<close> events of its producers and consumers) is outside the model.
\<close>

definition closeSendTransport :: "World \<Rightarrow> World" where
  "closeSendTransport w =
     (case sendTransport (client w) of
        None \<Rightarrow> w
      | Some t \<Rightarrow>
          perform (TransportClose (transportId t))
            (w\<lparr>client := (client w)\<lparr>sendTransport := Some (t\<lparr>transportClosed := True\<rparr>)\<rparr>\<rparr>))"

definition closeRecvTransport :: "World \<Rightarrow> World" where
  "closeRecvTransport w =
     (case recvTransport (client w) of
        None \<Rightarrow> w
      | Some t \<Rightarrow>
          perform (TransportClose (transportId t))
            (w\<lparr>client := (client w)\<lparr>recvTransport := Some (t\<lparr>transportClosed := True\<rparr>)\<rparr>\<rparr>))"

text \<open>
  \<open>close()\<close>. The second component is the error the call throws, if any:
  \<open>this._signalingSocket.close()\<close> on a socket that is still \<open>null\<close> is a
  \<open>TypeError\<close>, thrown after the flag has been set.
\<close>

definition close :: "World \<Rightarrow> World \<times> error option" where
  "close w =
     (if closedFlag (client w) then (w, None)
      else (let w1 = w\<lparr>client := (client w)\<lparr>closedFlag := True\<rparr>\<rparr>;
                w2 = logline (LogDebug ''close()'') w1
            in case signalingSocket (client w2) of
                 None \<Rightarrow> (w2, Some TypeError)
               | Some sock \<Rightarrow>
                   (let w3 = perform SocketClose
                          (w2\<lparr>client := (client w2)
                               \<lparr>signalingSocket := Some (sock\<lparr>socketClosed := True\<rparr>)\<rparr>\<rparr>);
                        w4 = closeSendTransport w3;
                        w5 = closeRecvTransport w4;
                        w6 = dispatch (SetRoomState state_closed) w5
                    in (perform Navigate w6, None))))"

text \<open>\<open>producer.close()\<close> followed by the dispatch of \<open>removeProducer(producer.id)\<close>.\<close>

definition closeAndRemove :: "Producer \<Rightarrow> World \<Rightarrow> World" where
  "closeAndRemove p w =
     dispatch (RemoveProducer (producer_id p)) (perform (ProducerClose (producer_id p)) w)"

text \<open>
  The statements of the disconnect handler after its \<open>if (reason === 'io server
  disconnect')\<close> block, in their order.
\<close>

definition disconnectTeardown :: "World \<Rightarrow> World" where
  "disconnectTeardown w0 =
     (let w1 = dispatch (Notify ''socket.reconnecting'') w0;
          w2 = (case screenSharingProducer (client w1) of
                  None \<Rightarrow> w1
                | Some p \<Rightarrow> (let w = closeAndRemove p w1
                             in w\<lparr>client := (client w)\<lparr>screenSharingProducer := None\<rparr>\<rparr>));
          w3 = (case webcamProducer (client w2) of
                  None \<Rightarrow> w2
                | Some p \<Rightarrow> (let w = closeAndRemove p w2
                             in w\<lparr>client := (client w)\<lparr>webcamProducer := None\<rparr>\<rparr>));
          w4 = foldl (\<lambda>w p. closeAndRemove p w) w3 (extraVideoProducers (client w3));
          w5 = w4\<lparr>client := (client w4)\<lparr>extraVideoProducers := []\<rparr>\<rparr>;
          w6 = (case micProducer (client w5) of
                  None \<Rightarrow> w5
                | Some p \<Rightarrow> (let w = closeAndRemove p w5
                             in w\<lparr>client := (client w)\<lparr>micProducer := None\<rparr>\<rparr>));
          w7 = (case sendTransport (client w6) of
                  None \<Rightarrow> w6
                | Some t \<Rightarrow> (let w = closeSendTransport w6
                             in w\<lparr>client := (client w)\<lparr>sendTransport := None\<rparr>\<rparr>));
          w8 = (case recvTransport (client w7) of
                  None \<Rightarrow> w7
                | Some t \<Rightarrow> (let w = closeRecvTransport w7
                             in w\<lparr>client := (client w)\<lparr>recvTransport := None\<rparr>\<rparr>));
          w9 = perform (SpotlightsCall ''clearSpotlights'' []) w8;
          w10 = dispatch ClearPeers w9;
          w11 = dispatch ClearConsumers w10;
          w12 = dispatch ClearSpotlights w11
      in dispatch (SetRoomState state_connecting) w12)"

text \<open>
  The handler of the signaling socket's \<open>disconnect\<close> event. An error thrown by
  \<open>close()\<close> would leave the handler; otherwise the statements after the \<open>if\<close> block
  run for every reason.
\<close>

definition onDisconnect :: "string \<Rightarrow> World \<Rightarrow> World \<times> error option" where
  "onDisconnect reason w0 =
     (let w = logline (LogWarn ''disconnect'') w0
      in if closedFlag (client w) then (w, None)
         else (case (if reason = ''io server disconnect''
                     then close (dispatch (Notify ''socket.disconnected'') w)
                     else (w, None)) of
                 (w1, Some e) \<Rightarrow> (w1, Some e)
               | (w1, None) \<Rightarrow> (disconnectTeardown w1, None)))"

text \<open>
  A client in a room: connected, with both transports, a microphone and a webcam
  producer, one video consumer of the peer \<open>p1\<close>, who is in the spotlights.
\<close>

definition exampleWorld :: World where
  "exampleWorld =
     \<lparr>client =
        \<lparr>closedFlag = False,
         signalingSocket = Some \<lparr>socketClosed = False\<rparr>,
         mediasoupDevice = Some \<lparr>canProduce = (\<lambda>k. True)\<rparr>,
         sendTransport = Some \<lparr>transportId = ''send'', transportClosed = False\<rparr>,
         recvTransport = Some \<lparr>transportId = ''recv'', transportClosed = False\<rparr>,
         micProducer = Some \<lparr>producer_id = ''mic1'', producer_paused = False,
                              producer_closed = False, producer_track = ''track1''\<rparr>,
         webcamProducer = Some \<lparr>producer_id = ''cam1'', producer_paused = False,
                                 producer_closed = False, producer_track = ''track2''\<rparr>,
         screenSharingProducer = None,
         extraVideoProducers = [],
         consumersMap = [\<lparr>consumer_id = ''c1'', consumer_kind = video, appData_peerId = ''p1'',
                           appData_source = ''webcam'', consumer_paused = False,
                           consumer_closed = False, consumer_hark = False\<rparr>]\<rparr>,
      store =
        \<lparr>roomState = state_connected, spotlights = [''p1''], selectedPeers = [],
         peers = [''p1''],
         consumers = [exampleConsumer\<lparr>preferredSpatialLayer := 0, preferredTemporalLayer := 0\<rparr>],
         producers = [(''mic1'', False), (''cam1'', False)],
         audioMuted = False, audioInProgress = False, selectedAudioDevice = None,
         notifications = []\<rparr>,
      effects = [],
      logger = []\<rparr>"

subsection \<open>The microphone: muteMic, unmuteMic, updateMic\<close>

text \<open>
  The methods are async; between an \<open>await\<close> and its continuation nothing else runs
  in this model. The second component of a result is the error the call is rejected
  with, if any.
\<close>

text \<open>
  \<open>muteMic()\<close>. \<open>this._micProducer.pause()\<close> stands before the \<open>try\<close>: without a
  producer the call is rejected with a \<open>TypeError\<close>.
\<close>

definition muteMic :: "config \<Rightarrow> network \<Rightarrow> World \<Rightarrow> World \<times> error option" where
  "muteMic cfg net w0 =
     (let w = logline (LogDebug ''muteMic()'') w0
      in case micProducer (client w) of
           None \<Rightarrow> (w, Some TypeError)
         | Some p \<Rightarrow>
             (let w1 = perform (ProducerPause (producer_id p))
                    (w\<lparr>client := (client w)\<lparr>micProducer := Some (p\<lparr>producer_paused := True\<rparr>)\<rparr>\<rparr>)
              in case request cfg net ''pauseProducer'' (producer_id p) w1 of
                   (Resolved r, w2) \<Rightarrow>
                     (dispatch (SetAudioMuted True)
                        (dispatch (SetProducerPaused (producer_id p)) w2), None)
                 | (Rejected e, w2) \<Rightarrow>
                     (dispatch (Notify ''devices.microphoneMuteError'')
                        (logline (LogError ''muteMic()'' e) w2), None)))"

text \<open>The argument object of \<open>updateMic\<close>; its defaults are those of the source.\<close>

record MicArgs =
  start :: bool
  restart :: bool
  newDeviceId :: "string option"

definition micDefaults :: MicArgs where
  "micDefaults = \<lparr>start = False, restart = True, newDeviceId = None\<rparr>"

text \<open>A device id used as a condition: \<open>null\<close> and the empty string are falsy.\<close>

definition truthy :: "string option \<Rightarrow> bool" where
  "truthy v = (case v of None \<Rightarrow> False | Some s \<Rightarrow> s \<noteq> [])"

text \<open>
  The part of the \<open>try\<close> block of \<open>updateMic\<close> from \<open>_getAudioDeviceId()\<close> to
  \<open>_updateAudioDevices()\<close> works on the browser's media devices and on mediasoup; it is a
  parameter of the model. It is given the arguments and the world, and returns the error
  it throws, if any, the variable \<open>track\<close> as it then is, and the world.
\<close>

type_synonym mic_acquire = "MicArgs \<Rightarrow> World \<Rightarrow> (error option \<times> string option) \<times> World"

text \<open>The \<open>catch\<close> block of \<open>updateMic\<close>.\<close>

definition updateMicCatch :: "error \<Rightarrow> string option \<Rightarrow> World \<Rightarrow> World" where
  "updateMicCatch err track w =
     (let w1 = logline (LogError ''updateMic()'' err) w;
          w2 = dispatch (Notify ''devices.microphoneError'') w1
      in case track of None \<Rightarrow> w2 | Some t \<Rightarrow> perform (TrackStop t) w2)"

text \<open>
  \<open>updateMic({start, restart, newDeviceId})\<close>. Every error is caught inside, so the
  call is never rejected.
\<close>

definition updateMic :: "mic_acquire \<Rightarrow> MicArgs \<Rightarrow> World \<Rightarrow> World" where
  "updateMic acquire args w0 =
     (let w = logline (LogDebug ''updateMic()'') w0;
          w' = (case mediasoupDevice (client w) of
                  None \<Rightarrow> updateMicCatch TypeError None w
                | Some dev \<Rightarrow>
                    if \<not> canProduce dev audio
                    then updateMicCatch (Error ''cannot produce audio'') None w
                    else if truthy (newDeviceId args) \<and> \<not> restart args
                    then updateMicCatch (Error ''changing device requires restart'') None w
                    else (let w1 = (if truthy (newDeviceId args)
                                    then dispatch (SetSelectedAudioDevice (the (newDeviceId args))) w
                                    else w);
                              w2 = dispatch (SetAudioInProgress True) w1
                          in case acquire args w2 of
                               ((None, track), w3) \<Rightarrow> w3
                             | ((Some err, track), w3) \<Rightarrow> updateMicCatch err track w3))
      in dispatch (SetAudioInProgress False) w')"

text \<open>
  \<open>unmuteMic()\<close>. Without a producer it calls \<open>updateMic({ start: true })\<close> and does
  not wait for it.
\<close>

definition unmuteMic :: "config \<Rightarrow> network \<Rightarrow> mic_acquire \<Rightarrow> World \<Rightarrow> World" where
  "unmuteMic cfg net acquire w0 =
     (let w = logline (LogDebug ''unmuteMic()'') w0
      in case micProducer (client w) of
           None \<Rightarrow> updateMic acquire (micDefaults\<lparr>start := True\<rparr>) w
         | Some p \<Rightarrow>
             (let w1 = perform (ProducerResume (producer_id p))
                    (w\<lparr>client := (client w)\<lparr>micProducer := Some (p\<lparr>producer_paused := False\<rparr>)\<rparr>\<rparr>)
              in case request cfg net ''resumeProducer'' (producer_id p) w1 of
                   (Resolved r, w2) \<Rightarrow>
                     dispatch (SetAudioMuted False)
                       (dispatch (SetProducerResumed (producer_id p)) w2)
                 | (Rejected e, w2) \<Rightarrow>
                     dispatch (Notify ''devices.microphoneUnMuteError'')
                       (logline (LogError ''unmuteMic()'' e) w2)))"

text \<open>How often \<open>updateMic\<close> has been entered, read off the logger.\<close>

definition updateMicCalls :: "World \<Rightarrow> nat" where
  "updateMicCalls w = length (filter (\<lambda>l. l = LogDebug ''updateMic()'') (logger w))"

text \<open>An \<open>acquire\<close> that finds no audio device, and a network that answers at once.\<close>

definition noDevices :: mic_acquire where
  "noDevices args w = ((Some (Error ''no audio devices''), None), w)"

definition promptNetwork :: network where
  "promptNetwork method data tries = Reply 10 None ''ok''"

text \<open>
  The example client on a device that cannot produce audio, hence without a mic producer,
  and the call \<open>updateMic({ newDeviceId: 'dev2', restart: false })\<close>.
\<close>

definition audiolessWorld :: World where
  "audiolessWorld =
     exampleWorld\<lparr>client := (client exampleWorld)
       \<lparr>mediasoupDevice := Some \<lparr>canProduce = (\<lambda>k. k = video)\<rparr>, micProducer := None\<rparr>\<rparr>"

definition changeDeviceArgs :: MicArgs where
  "changeDeviceArgs = \<lparr>start = False, restart = False, newDeviceId = Some ''dev2''\<rparr>"

subsection \<open>Consumers: pause, resume, close, updateSpotlights, modifyPeerConsumer\<close>

text \<open>\<open>this._consumers.get(consumerId)\<close>, the id being \<open>cid\<close>.\<close>

definition getConsumer :: "string \<Rightarrow> World \<Rightarrow> Consumer option" where
  "getConsumer cid w = find (\<lambda>c. consumer_id c = cid) (consumersMap (client w))"

text \<open>\<open>consumer.pause()\<close> and \<open>consumer.resume()\<close>, on the object kept in the map.\<close>

definition setPaused :: "string \<Rightarrow> bool \<Rightarrow> World \<Rightarrow> World" where
  "setPaused cid b w =
     w\<lparr>client := (client w)
        \<lparr>consumersMap := map (\<lambda>c. if consumer_id c = cid then c\<lparr>consumer_paused := b\<rparr> else c)
                            (consumersMap (client w))\<rparr>\<rparr>"













text \<open>
  A consumer as \<open>updateSpotlights\<close> means to leave it: a video consumer paused exactly
  when its peer is not in the list; in the store, and in the client's map.
\<close>

definition spotlit :: "string list \<Rightarrow> ConsumerType \<Rightarrow> ConsumerType" where
  "spotlit sp sc = (if kind sc = video then sc\<lparr>locallyPaused := peerId sc \<notin> set sp\<rparr> else sc)"

definition spotlitC :: "string list \<Rightarrow> Consumer \<Rightarrow> Consumer" where
  "spotlitC sp c =
     (if consumer_kind c = video then c\<lparr>consumer_paused := appData_peerId c \<notin> set sp\<rparr> else c)"

section \<open>Theorems\<close>

subsection \<open>Facts about getResolutionScalings\<close>

lemma svcLoop_upt:
  "i \<le> n \<Longrightarrow> svcLoop n i rs = rs @ map (\<lambda>k. 2 ^ (n - k - 1)) [i..<n]"
proof (induction n i rs rule: svcLoop.induct)
  case (1 spatialLayers i resolutionScalings)
  show ?case
  proof (cases "i < spatialLayers")
    case True
    then have "svcLoop spatialLayers i resolutionScalings =
        svcLoop spatialLayers (i + 1) (resolutionScalings @ [2 ^ (spatialLayers - i - 1)])"
      by (subst svcLoop.simps) simp
    also have "\<dots> = (resolutionScalings @ [2 ^ (spatialLayers - i - 1)]) @
        map (\<lambda>k. 2 ^ (spatialLayers - k - 1)) [i + 1..<spatialLayers]"
      using "1.IH" [OF True] True by simp
    also have "\<dots> = resolutionScalings @ map (\<lambda>k. 2 ^ (spatialLayers - k - 1)) [i..<spatialLayers]"
      using True by (simp add: upt_conv_Cons)
    finally show ?thesis .
  next
    case False
    with "1.prems" have "i = spatialLayers" by simp
    then show ?thesis by (subst svcLoop.simps) simp
  qed
qed

lemma svcLoop_powers: "svcLoop n 0 [] = powersOfTwoDown n"
  using svcLoop_upt [of 0 n "[]"] by (simp add: powersOfTwoDown_def)

lemma simulcastLoop_eq:
  "simulcastLoop es (d, rs) =
     (d \<or> (\<exists>e \<in> set es. scaleResolutionDownBy e \<noteq> None), rs @ map clampedScaling es)"
  by (induction es arbitrary: d rs) (auto simp: clampedScaling_def split: option.splits)

lemma foldl_update_prefix:
  "k \<le> length rs \<Longrightarrow>
   foldl (\<lambda>rs index. rs[index := f index]) rs [0..<k] = map f [0..<k] @ drop k rs"
proof (induction k)
  case 0
  then show ?case by simp
next
  case (Suc k)
  then have k: "k < length rs" by simp
  have "foldl (\<lambda>rs index. rs[index := f index]) rs [0..<Suc k] =
      (map f [0..<k] @ drop k rs)[k := f k]"
    using Suc by simp
  also have "\<dots> = map f [0..<k] @ (drop k rs)[0 := f k]"
    by (simp add: list_update_append)
  also have "\<dots> = map f [0..<k] @ f k # drop (Suc k) rs"
    using k by (simp add: Cons_nth_drop_Suc [symmetric])
  finally show ?case by simp
qed

lemma defaultLoop_powers: "length rs = n \<Longrightarrow> defaultLoop n rs = powersOfTwoDown n"
  using foldl_update_prefix [of n rs "\<lambda>index. 2 ^ (n - index - 1)"]
  by (simp add: defaultLoop_def powersOfTwoDown_def)

lemma parse_S3T3_KEY: "parseScalabilityMode (Some ''S3T3_KEY'') = (3, 3)"
  by (simp add: parseScalabilityMode_def layerCount_def digitVal_def)

lemma powersOfTwoDown_Suc3: "powersOfTwoDown (Suc (Suc (Suc 0))) = [4, 2, 1]"
  by (simp add: powersOfTwoDown_def upt_rec)

lemma powersOfTwoDown_3: "powersOfTwoDown 3 = [4, 2, 1]"
  using powersOfTwoDown_Suc3 by (simp add: numeral_3_eq_3)

text \<open>
  C6. \<open>getResolutionScalings\<close>: a single encoding gives the powers of two from
  \<open>2^(L-1)\<close> down to \<open>2^0\<close>, \<open>L\<close> being the spatial layers parsed from the scalability
  mode of that encoding; otherwise each encoding gives \<open>max(1, scaleResolutionDownBy)\<close>,
  an undefined one 1, when at least one encoding defines the field, and the powers of two
  from \<open>2^(N-1)\<close> down to \<open>2^0\<close> when none of the \<open>N\<close> encodings defines it. The three
  examples of the specification are instances: \<open>[{scalabilityMode: 'S3T3_KEY'}]\<close> and
  \<open>[{}, {}, {}]\<close> give \<open>[4, 2, 1]\<close>, and \<open>[{scaleResolutionDownBy: 0.5}, {}]\<close> gives
  \<open>[1, 1]\<close>.
\<close>

theorem getResolutionScalings_spec:
  "(length encodings = 1 \<longrightarrow>
      getResolutionScalings psm encodings =
        powersOfTwoDown (fst (psm (scalabilityMode (hd encodings)))))
   \<and> (length encodings \<noteq> 1 \<and> (\<exists>e \<in> set encodings. scaleResolutionDownBy e \<noteq> None) \<longrightarrow>
      getResolutionScalings psm encodings = map clampedScaling encodings)
   \<and> (length encodings \<noteq> 1 \<and> (\<forall>e \<in> set encodings. scaleResolutionDownBy e = None) \<longrightarrow>
      getResolutionScalings psm encodings = powersOfTwoDown (length encodings))
   \<and> getResolutionScalings parseScalabilityMode
        [\<lparr>scalabilityMode = Some ''S3T3_KEY'', scaleResolutionDownBy = None\<rparr>] = [4, 2, 1]
   \<and> getResolutionScalings psm
        [\<lparr>scalabilityMode = None, scaleResolutionDownBy = None\<rparr>,
         \<lparr>scalabilityMode = None, scaleResolutionDownBy = None\<rparr>,
         \<lparr>scalabilityMode = None, scaleResolutionDownBy = None\<rparr>] = [4, 2, 1]
   \<and> getResolutionScalings psm
        [\<lparr>scalabilityMode = None, scaleResolutionDownBy = Some (1 / 2)\<rparr>,
         \<lparr>scalabilityMode = None, scaleResolutionDownBy = None\<rparr>] = [1, 1]"
proof (intro conjI impI)
  assume "length encodings = 1"
  then show "getResolutionScalings psm encodings =
      powersOfTwoDown (fst (psm (scalabilityMode (hd encodings))))"
    by (cases encodings) (simp_all add: getResolutionScalings_def svcLoop_powers)
next
  assume "length encodings \<noteq> 1 \<and> (\<exists>e \<in> set encodings. scaleResolutionDownBy e \<noteq> None)"
  then show "getResolutionScalings psm encodings = map clampedScaling encodings"
    by (simp add: getResolutionScalings_def simulcastLoop_eq)
next
  assume "length encodings \<noteq> 1 \<and> (\<forall>e \<in> set encodings. scaleResolutionDownBy e = None)"
  then show "getResolutionScalings psm encodings = powersOfTwoDown (length encodings)"
    by (simp add: getResolutionScalings_def simulcastLoop_eq defaultLoop_powers)
next
  show "getResolutionScalings parseScalabilityMode
      [\<lparr>scalabilityMode = Some ''S3T3_KEY'', scaleResolutionDownBy = None\<rparr>] = [4, 2, 1]"
    by (simp add: getResolutionScalings_def svcLoop_powers parse_S3T3_KEY powersOfTwoDown_3)
next
  show "getResolutionScalings psm
      [\<lparr>scalabilityMode = None, scaleResolutionDownBy = None\<rparr>,
       \<lparr>scalabilityMode = None, scaleResolutionDownBy = None\<rparr>,
       \<lparr>scalabilityMode = None, scaleResolutionDownBy = None\<rparr>] = [4, 2, 1]"
    by (simp add: getResolutionScalings_def simulcastLoop_eq defaultLoop_powers powersOfTwoDown_Suc3)
next
  show "getResolutionScalings psm
      [\<lparr>scalabilityMode = None, scaleResolutionDownBy = Some (1 / 2)\<rparr>,
       \<lparr>scalabilityMode = None, scaleResolutionDownBy = None\<rparr>] = [1, 1]"
    by (simp add: getResolutionScalings_def)
qed

theorem getResolutionScalings_spec_witness:
  "getResolutionScalings parseScalabilityMode
     [\<lparr>scalabilityMode = Some ''S2T3'', scaleResolutionDownBy = Some 7\<rparr>] = [2, 1]
   \<and> getResolutionScalings parseScalabilityMode
     [\<lparr>scalabilityMode = None, scaleResolutionDownBy = Some 4\<rparr>,
      \<lparr>scalabilityMode = None, scaleResolutionDownBy = None\<rparr>,
      \<lparr>scalabilityMode = None, scaleResolutionDownBy = Some (1 / 3)\<rparr>] = [4, 1, 1]
   \<and> getResolutionScalings parseScalabilityMode
     [\<lparr>scalabilityMode = None, scaleResolutionDownBy = None\<rparr>,
      \<lparr>scalabilityMode = None, scaleResolutionDownBy = None\<rparr>] = [2, 1]"
proof (intro conjI)
  have p: "parseScalabilityMode (Some ''S2T3'') = (2, 3)"
    by (simp add: parseScalabilityMode_def layerCount_def digitVal_def)
  have two: "powersOfTwoDown 2 = [2, 1]"
    by (simp add: powersOfTwoDown_def upt_rec numeral_2_eq_2)
  show "getResolutionScalings parseScalabilityMode
     [\<lparr>scalabilityMode = Some ''S2T3'', scaleResolutionDownBy = Some 7\<rparr>] = [2, 1]"
    using getResolutionScalings_spec
      [where encodings = "[\<lparr>scalabilityMode = Some ''S2T3'', scaleResolutionDownBy = Some 7\<rparr>]"
         and psm = parseScalabilityMode]
    by (simp add: p two)
  show "getResolutionScalings parseScalabilityMode
     [\<lparr>scalabilityMode = None, scaleResolutionDownBy = Some 4\<rparr>,
      \<lparr>scalabilityMode = None, scaleResolutionDownBy = None\<rparr>,
      \<lparr>scalabilityMode = None, scaleResolutionDownBy = Some (1 / 3)\<rparr>] = [4, 1, 1]"
    using getResolutionScalings_spec
      [where encodings = "[\<lparr>scalabilityMode = None, scaleResolutionDownBy = Some 4\<rparr>,
      \<lparr>scalabilityMode = None, scaleResolutionDownBy = None\<rparr>,
      \<lparr>scalabilityMode = None, scaleResolutionDownBy = Some (1 / 3)\<rparr>]"
         and psm = parseScalabilityMode]
    by (simp add: clampedScaling_def)
  show "getResolutionScalings parseScalabilityMode
     [\<lparr>scalabilityMode = None, scaleResolutionDownBy = None\<rparr>,
      \<lparr>scalabilityMode = None, scaleResolutionDownBy = None\<rparr>] = [2, 1]"
    using getResolutionScalings_spec
      [where encodings = "[\<lparr>scalabilityMode = None, scaleResolutionDownBy = None\<rparr>,
      \<lparr>scalabilityMode = None, scaleResolutionDownBy = None\<rparr>]"
         and psm = parseScalabilityMode]
    by (simp add: powersOfTwoDown_def upt_rec)
qed

subsection \<open>Facts about sendRequest\<close>

lemma sendRequest1_elapsed: "snd (sendRequest1 cfg sock r) \<le> requestTimeout cfg"
  by (auto simp: sendRequest1_def timeoutCallback_def split: option.splits reply.splits)

lemma sendRequestLoop_bounds:
  "tries \<le> requestRetries cfg \<Longrightarrow> waited \<le> requestTimeout cfg * tries \<Longrightarrow>
   attempts (sendRequestLoop cfg sock net tries waited) \<le> requestRetries cfg \<and>
   elapsed (sendRequestLoop cfg sock net tries waited) \<le>
     requestTimeout cfg * attempts (sendRequestLoop cfg sock net tries waited) \<and>
   outcome (sendRequestLoop cfg sock net tries waited) \<noteq> Rejected SocketTimeoutError"
proof (induction cfg sock net tries waited rule: sendRequestLoop.induct)
  case (1 cfg sock net tries waited)
  show ?case
  proof (cases "tries < requestRetries cfg")
    case False
    with "1.prems" show ?thesis by (subst (1 2 3 4) sendRequestLoop.simps) simp
  next
    case True
    obtain res d where r: "sendRequest1 cfg sock (net tries) = (res, d)"
      by (cases "sendRequest1 cfg sock (net tries)")
    have d: "d \<le> requestTimeout cfg"
      using sendRequest1_elapsed [of cfg sock "net tries"] r by simp
    have w: "waited + d \<le> requestTimeout cfg * (tries + 1)"
      using d "1.prems"(2) by simp
    show ?thesis
    proof (cases res)
      case (Inr response)
      with True r w show ?thesis by (subst (1 2 3 4) sendRequestLoop.simps) simp
    next
      case (Inl err)
      show ?thesis
      proof (cases "err = SocketTimeoutError")
        case False
        with True r w Inl show ?thesis by (subst (1 2 3 4) sendRequestLoop.simps) simp
      next
        case timeout: True
        have step: "sendRequestLoop cfg sock net tries waited =
            sendRequestLoop cfg sock net (tries + 1) (waited + d)"
          using True r Inl timeout by (subst sendRequestLoop.simps) simp
        have "tries + 1 \<le> requestRetries cfg" using True by simp
        then show ?thesis
          unfolding step
          using "1.IH" [OF True r [symmetric] Inl _ _ w] timeout True by simp
      qed
    qed
  qed
qed

lemma sendRequestLoop_all_timeouts:
  "tries \<le> requestRetries cfg \<Longrightarrow>
   sendRequestLoop cfg (Some sock) (\<lambda>i. NoReply) tries waited =
     \<lparr>outcome = Resolved None, attempts = requestRetries cfg,
      elapsed = waited + requestTimeout cfg * (requestRetries cfg - tries)\<rparr>"
proof (induction cfg "Some sock" "\<lambda>i::nat. NoReply" tries waited rule: sendRequestLoop.induct)
  case (1 cfg tries waited)
  show ?case
  proof (cases "tries < requestRetries cfg")
    case False
    with "1.prems" show ?thesis by (subst sendRequestLoop.simps) simp
  next
    case True
    have r: "sendRequest1 cfg (Some sock) NoReply = (Inl SocketTimeoutError, requestTimeout cfg)"
      by (simp add: sendRequest1_def timeoutCallback_def)
    have step: "sendRequestLoop cfg (Some sock) (\<lambda>i. NoReply) tries waited =
        sendRequestLoop cfg (Some sock) (\<lambda>i. NoReply) (tries + 1) (waited + requestTimeout cfg)"
      using True r by (subst sendRequestLoop.simps) simp
    have "tries + 1 \<le> requestRetries cfg" using True by simp
    then have "sendRequestLoop cfg (Some sock) (\<lambda>i. NoReply) (tries + 1) (waited + requestTimeout cfg) =
        \<lparr>outcome = Resolved None, attempts = requestRetries cfg,
         elapsed = waited + requestTimeout cfg + requestTimeout cfg * (requestRetries cfg - (tries + 1))\<rparr>"
      using "1.hyps" [OF True r [symmetric] refl] True by simp
    moreover have "requestTimeout cfg + requestTimeout cfg * (requestRetries cfg - (tries + 1)) =
        requestTimeout cfg * (requestRetries cfg - tries)"
      using True by (metis Suc_diff_Suc Suc_eq_plus1 mult_Suc_right)
    ultimately show ?thesis unfolding step by simp
  qed
qed

text \<open>
  C1. \<open>sendRequest\<close> is to reject when every attempt times out. With
  \<open>requestRetries = 3\<close>, \<open>requestTimeout = 20000\<close> and a channel that never
  acknowledges, the code makes its three attempts, each ending in
  \<open>SocketTimeoutError\<close> after 20000 ms, and then resolves with \<open>undefined\<close>: the
  test \<open>tries < config.requestRetries\<close> of the \<open>catch\<close> block holds at every
  attempt of the loop, the last one too, so that the timeout error is never thrown.
\<close>

theorem sendRequest_all_timeouts_resolves:
  "sendRequest exampleConfig (Some \<lparr>socketClosed = False\<rparr>) (\<lambda>tries. NoReply) =
     \<lparr>outcome = Resolved None, attempts = 3, elapsed = 60000\<rparr>"
  using sendRequestLoop_all_timeouts [of 0 exampleConfig "\<lparr>socketClosed = False\<rparr>" 0]
  by (simp add: sendRequest_def exampleConfig_def)

subsection \<open>Facts about double arithmetic\<close>

lemma floor_numeral_quotient:
  "\<lfloor>(numeral a :: rat) / numeral b\<rfloor> = (numeral a :: int) div numeral b"
  using floor_divide_of_int_eq [of "numeral a" "numeral b", where ?'a = rat] by simp

lemma ceiling_numeral_quotient:
  "\<lceil>(numeral a :: rat) / numeral b\<rceil> = - ((- numeral a :: int) div numeral b)"
  using floor_divide_of_int_eq [of "- numeral a" "numeral b", where ?'a = rat]
  by (simp add: ceiling_def)

lemmas dbl_eval = toDouble_def roundPos_def nearest_def expo_def ilog2_def rne_def bits.simps
  Let_def floor_numeral_quotient ceiling_numeral_quotient

lemma bits_nonneg: "0 \<le> bits n"
  by (induction n rule: bits.induct) (subst bits.simps, simp)




lemma rne_of_int [simp]: "rne (of_int n) = n"
  by (simp add: rne_def Let_def)










subsection \<open>Facts about adaptConsumerPreferredLayers\<close>



















lemma factor055_double: "toDouble (11 / 20) = Fin factor055" "isDouble factor055"
  by (simp_all add: factor055_def isDouble_def dbl_eval)







subsection \<open>Facts about restartIce\<close>

lemma clearTimeout_keeps [simp]:
  "ice (clearTimeout h s) = ice s" "inFlight (clearTimeout h s) = inFlight s"
  "issued (clearTimeout h s) = issued s" "clock (clearTimeout h s) = clock s"
  "nextTimer (clearTimeout h s) = nextTimer s" "transport (clearTimeout h s) = transport s"
  by (simp_all add: clearTimeout_def split: option.splits)

lemma restartIce_keeps [simp]:
  "restarting (ice (restartIce tr d s)) = restarting (ice s)"
  "inFlight (restartIce tr d s) = inFlight s"
  "issued (restartIce tr d s) = issued s"
  "clock (restartIce tr d s) = clock s"
  by (simp_all add: restartIce_def setTimeout_def Let_def split: option.splits)

lemma singleFlight_restartIce: "singleFlight s \<Longrightarrow> singleFlight (restartIce tr d s)"
  by (simp add: singleFlight_def)

lemma singleFlight_clearTimeout: "singleFlight s \<Longrightarrow> singleFlight (clearTimeout h s)"
  by (simp add: singleFlight_def)

lemma singleFlight_runCallback: "singleFlight s \<Longrightarrow> singleFlight (runCallback cb s)"
proof (cases cb)
  case (Attempt t d)
  assume "singleFlight s"
  then show ?thesis using Attempt by (auto simp: singleFlight_def runCallback_def Let_def)
next
  case (Retry t d)
  assume "singleFlight s"
  then show ?thesis using Retry by (simp add: runCallback_def singleFlight_restartIce)
qed

lemma singleFlight_fire: "singleFlight s \<Longrightarrow> singleFlight (fire h s)"
proof -
  assume a: "singleFlight s"
  have "\<And>c p. singleFlight (s\<lparr>clock := c, pending := p\<rparr>)"
    using a by (simp add: singleFlight_def)
  with a show ?thesis
    by (auto simp: fire_def singleFlight_runCallback split: option.splits)
qed

lemma singleFlight_settle: "singleFlight s \<Longrightarrow> singleFlight (settle i ok s)"
proof (cases "i < length (inFlight s)")
  case False
  assume "singleFlight s"
  with False show ?thesis by (simp add: settle_def)
next
  case True
  assume a: "singleFlight s"
  with True have i: "i = 0" and l: "length (inFlight s) = 1" by (auto simp: singleFlight_def)
  then obtain x where x: "inFlight s = [x]" by (cases "inFlight s") auto
  show ?thesis
    using i x by (cases x) (simp add: settle_def singleFlight_def setTimeout_def Let_def)
qed

lemma singleFlight_step: "singleFlight s \<Longrightarrow> singleFlight (step s e)"
proof (cases e)
  case (StateChange c)
  assume "singleFlight s"
  then show ?thesis
    using StateChange
    by (simp add: connectionstatechange_def singleFlight_restartIce singleFlight_clearTimeout)
next
  case (Fire h)
  assume "singleFlight s"
  then show ?thesis using Fire by (simp add: singleFlight_fire)
next
  case (Settle i ok)
  assume "singleFlight s"
  then show ?thesis using Settle by (simp add: singleFlight_settle)
next
  case (Tick ms)
  assume "singleFlight s"
  then show ?thesis using Tick by (simp add: singleFlight_def)
qed

lemma singleFlight_run: "singleFlight s \<Longrightarrow> singleFlight (run evs s)"
  unfolding run_def by (induction evs arbitrary: s) (simp_all add: singleFlight_step)

lemma singleFlight_init: "singleFlight (iceInit t)"
  by (simp add: singleFlight_def iceInit_def)

lemma fire_attempt:
  assumes "find (\<lambda>(h', due, cb). h' = h) (pending s) = Some (h, due, Attempt tr d)"
  shows "restarting (ice s) \<longrightarrow> issued (fire h s) = issued s \<and> inFlight (fire h s) = inFlight s \<and>
           restarting (ice (fire h s))"
    and "\<not> restarting (ice s) \<longrightarrow> restarting (ice (fire h s)) \<and>
           issued (fire h s) = issued s @ [(max (clock s) due, transportId tr)] \<and>
           inFlight (fire h s) = inFlight s @ [(tr, d)]"
  using assms by (simp_all add: fire_def runCallback_def Let_def)

lemma settle_clears: "i < length (inFlight s) \<Longrightarrow> \<not> restarting (ice (settle i ok s))"
  by (simp add: settle_def setTimeout_def Let_def split: prod.splits)

lemma run_started:
  "run [StateChange ''failed''] (iceInit exampleTransport) =
     \<lparr>transport = Some exampleTransport, ice = \<lparr>timer = Some 0, restarting = False\<rparr>,
      clock = 0, pending = [(0, 2000, Attempt exampleTransport 2000)], nextTimer = 1,
      inFlight = [], issued = []\<rparr>"
  by (simp add: run_def connectionstatechange_def restartIce_def clearTimeout_def
      setTimeout_def iceInit_def Let_def)

lemma run_attempting:
  "run [StateChange ''failed'', Fire 0] (iceInit exampleTransport) =
     \<lparr>transport = Some exampleTransport, ice = \<lparr>timer = Some 0, restarting = True\<rparr>,
      clock = 2000, pending = [], nextTimer = 1,
      inFlight = [(exampleTransport, 2000)], issued = [(2000, ''t1'')]\<rparr>"
  by (simp add: run_def connectionstatechange_def restartIce_def clearTimeout_def
      setTimeout_def iceInit_def Let_def fire_def runCallback_def exampleTransport_def)

lemma run_second_timer:
  "run [StateChange ''failed'', Fire 0, StateChange ''failed''] (iceInit exampleTransport) =
     \<lparr>transport = Some exampleTransport, ice = \<lparr>timer = Some 1, restarting = True\<rparr>,
      clock = 2000, pending = [(1, 4000, Attempt exampleTransport 2000)], nextTimer = 2,
      inFlight = [(exampleTransport, 2000)], issued = [(2000, ''t1'')]\<rparr>"
  by (simp add: run_def connectionstatechange_def restartIce_def clearTimeout_def
      setTimeout_def iceInit_def Let_def fire_def runCallback_def exampleTransport_def)

text \<open>
  C5. For each transport at most one ICE restart is in flight at any time: after any run
  of events from the creation of the transport, at most one attempt is in flight, and the
  flag \<open>restarting\<close> is set exactly when one is. A timer of \<open>restartIce\<close> that
  fires while the flag is set returns without sending a request and without starting an
  attempt; one that fires while the flag is clear sets the flag and sends the request;
  and the end of an attempt, successful or not, clears the flag.
\<close>

theorem restartIce_single_flight:
  "length (inFlight (run evs (iceInit t))) \<le> 1
   \<and> (restarting (ice (run evs (iceInit t))) \<longleftrightarrow> inFlight (run evs (iceInit t)) \<noteq> [])
   \<and> (find (\<lambda>(h', due, cb). h' = h) (pending s) = Some (h, due, Attempt tr d) \<and>
      restarting (ice s) \<longrightarrow>
        issued (fire h s) = issued s \<and> inFlight (fire h s) = inFlight s \<and>
        restarting (ice (fire h s)))
   \<and> (find (\<lambda>(h', due, cb). h' = h) (pending s) = Some (h, due, Attempt tr d) \<and>
      \<not> restarting (ice s) \<longrightarrow>
        restarting (ice (fire h s)) \<and>
        issued (fire h s) = issued s @ [(max (clock s) due, transportId tr)] \<and>
        inFlight (fire h s) = inFlight s @ [(tr, d)])
   \<and> (i < length (inFlight s) \<longrightarrow> \<not> restarting (ice (settle i ok s)))"
proof -
  have "singleFlight (run evs (iceInit t))"
    by (rule singleFlight_run [OF singleFlight_init])
  then have 1: "length (inFlight (run evs (iceInit t))) \<le> 1"
    and 2: "restarting (ice (run evs (iceInit t))) \<longleftrightarrow> inFlight (run evs (iceInit t)) \<noteq> []"
    by (simp_all add: singleFlight_def)
  show ?thesis
    using 1 2 fire_attempt [of h s due tr d] settle_clears [of i s ok] by blast
qed

text \<open>C5 at a transport whose connection failed twice while the first attempt was in flight.\<close>

theorem restartIce_single_flight_witness:
  "length (inFlight (run [StateChange ''failed'', Fire 0] (iceInit exampleTransport))) \<le> 1
   \<and> issued (fire 1 (run [StateChange ''failed'', Fire 0, StateChange ''failed'']
         (iceInit exampleTransport))) = [(2000, ''t1'')]
   \<and> issued (fire 0 (run [StateChange ''failed''] (iceInit exampleTransport))) = [(2000, ''t1'')]
   \<and> restarting (ice (fire 0 (run [StateChange ''failed''] (iceInit exampleTransport))))
   \<and> \<not> restarting (ice (settle 0 False
         (run [StateChange ''failed'', Fire 0] (iceInit exampleTransport))))"
proof -
  let ?A = "run [StateChange ''failed''] (iceInit exampleTransport)"
  let ?B = "run [StateChange ''failed'', Fire 0, StateChange ''failed''] (iceInit exampleTransport)"
  let ?C = "run [StateChange ''failed'', Fire 0] (iceInit exampleTransport)"
  note T1 = restartIce_single_flight
    [where evs = "[StateChange ''failed'', Fire 0]" and t = exampleTransport
       and s = ?B and h = 1 and due = 4000 and tr = exampleTransport and d = 2000
       and i = 0 and ok = False]
  note T2 = restartIce_single_flight
    [where evs = "[StateChange ''failed'', Fire 0]" and t = exampleTransport
       and s = ?A and h = 0 and due = 2000 and tr = exampleTransport and d = 2000
       and i = 0 and ok = False]
  note T3 = restartIce_single_flight
    [where evs = "[StateChange ''failed'', Fire 0]" and t = exampleTransport
       and s = ?C and h = 0 and due = 2000 and tr = exampleTransport and d = 2000
       and i = 0 and ok = False]
  have hB: "find (\<lambda>(h', due, cb). h' = 1) (pending ?B) = Some (1, 4000, Attempt exampleTransport 2000)
      \<and> restarting (ice ?B)"
    by (simp add: run_second_timer)
  have hA: "find (\<lambda>(h', due, cb). h' = 0) (pending ?A) = Some (0, 2000, Attempt exampleTransport 2000)
      \<and> \<not> restarting (ice ?A)"
    by (simp add: run_started)
  have hC: "0 < length (inFlight ?C)"
    by (simp add: run_attempting)
  have 1: "length (inFlight ?C) \<le> 1" using T1 by blast
  have "issued (fire 1 ?B) = issued ?B" using T1 hB by blast
  then have 2: "issued (fire 1 ?B) = [(2000, ''t1'')]" by (simp add: run_second_timer)
  have "restarting (ice (fire 0 ?A)) \<and>
      issued (fire 0 ?A) = issued ?A @ [(max (clock ?A) 2000, transportId exampleTransport)]"
    using T2 hA by blast
  moreover have "issued ?A = []" and "clock ?A = 0" and "transportId exampleTransport = ''t1''"
    by (simp_all add: run_started) (simp add: exampleTransport_def)
  ultimately have 3: "issued (fire 0 ?A) = [(2000, ''t1'')]" and 4: "restarting (ice (fire 0 ?A))"
    by simp_all
  have 5: "\<not> restarting (ice (settle 0 False ?C))" using T3 hC by blast
  from 1 2 3 4 5 show ?thesis by blast
qed

lemma find_fresh:
  "\<forall>(h, due, cb) \<in> set ps. h < (n::nat) \<Longrightarrow>
   find (\<lambda>(h', due, cb). h' = n) (ps @ [(n, x, y)]) = Some (n, x, y)"
  by (induction ps) auto

lemma filter_fresh:
  "\<forall>(h, due, cb) \<in> set ps. h < (n::nat) \<Longrightarrow>
   filter (\<lambda>(h', due, cb). h' \<noteq> n) (ps @ [(n, x, y)]) = ps"
  by (induction ps) auto

lemma filter_fresh':
  "\<forall>(h, due, cb) \<in> set ps. h < (n::nat) \<Longrightarrow> filter (\<lambda>(h', due, cb). h' \<noteq> n) ps = ps"
  by (induction ps) auto

lemma fresh_Suc:
  "\<forall>(h, due, cb) \<in> set ps. h < (n::nat) \<Longrightarrow> \<forall>(h, due, cb) \<in> set ps. h < Suc n"
  by auto

lemma settle_failed:
  assumes "i < length (inFlight s)" "inFlight s ! i = (tr, d)"
  shows "settle i False s =
     s\<lparr>inFlight := take i (inFlight s) @ drop (i + 1) (inFlight s),
       ice := \<lparr>timer = Some (nextTimer s), restarting = False\<rparr>,
       pending := pending s @ [(nextTimer s, clock s + d, Retry tr d)],
       nextTimer := nextTimer s + 1\<rparr>"
  using assms by (simp add: settle_def setTimeout_def Let_def)

lemma fire_retry:
  assumes "\<forall>(h, due, cb) \<in> set ps. h < n"
  shows "fire n (s\<lparr>ice := \<lparr>timer = Some n, restarting = False\<rparr>,
                   pending := ps @ [(n, clock s + d, Retry tr d)], nextTimer := n + 1\<rparr>) =
     s\<lparr>ice := \<lparr>timer = Some (n + 1), restarting = False\<rparr>,
       clock := clock s + d,
       pending := ps @ [(n + 1, clock s + d + d * 2, Attempt tr (d * 2))],
       nextTimer := n + 2\<rparr>"
  using find_fresh [OF assms] filter_fresh [OF assms] filter_fresh' [OF assms]
  by (simp add: fire_def runCallback_def restartIce_def clearTimeout_def setTimeout_def Let_def)

lemma fire_attempt_after_retry:
  assumes "\<forall>(h, due, cb) \<in> set ps. h < n"
  shows "fire (n + 1) (s\<lparr>ice := \<lparr>timer = Some (n + 1), restarting = False\<rparr>,
                   clock := c, pending := ps @ [(n + 1, c + k, Attempt tr e)], nextTimer := n + 2\<rparr>) =
     s\<lparr>ice := \<lparr>timer = Some (n + 1), restarting = True\<rparr>,
       clock := c + k, pending := ps, nextTimer := n + 2,
       issued := issued s @ [(c + k, transportId tr)],
       inFlight := inFlight s @ [(tr, e)]\<rparr>"
  using find_fresh [OF fresh_Suc [OF assms]] filter_fresh [OF fresh_Suc [OF assms]]
  by (simp add: fire_def runCallback_def Let_def)

lemma run_failed:
  "run [StateChange ''failed'', Fire 0, Settle 0 False] (iceInit exampleTransport) =
     \<lparr>transport = Some exampleTransport, ice = \<lparr>timer = Some 1, restarting = False\<rparr>,
      clock = 2000, pending = [(1, 4000, Retry exampleTransport 2000)], nextTimer = 2,
      inFlight = [], issued = [(2000, ''t1'')]\<rparr>"
  by (simp add: run_def connectionstatechange_def restartIce_def clearTimeout_def
      setTimeout_def iceInit_def Let_def fire_def runCallback_def settle_def exampleTransport_def)

lemma run_retried:
  "run [StateChange ''failed'', Fire 0, Settle 0 False, Fire 1] (iceInit exampleTransport) =
     \<lparr>transport = Some exampleTransport, ice = \<lparr>timer = Some 2, restarting = False\<rparr>,
      clock = 4000, pending = [(2, 8000, Attempt exampleTransport 4000)], nextTimer = 3,
      inFlight = [], issued = [(2000, ''t1'')]\<rparr>"
  by (simp add: run_def connectionstatechange_def restartIce_def clearTimeout_def
      setTimeout_def iceInit_def Let_def fire_def runCallback_def settle_def exampleTransport_def)

lemma run_second_attempt:
  "run [StateChange ''failed'', Fire 0, Settle 0 False, Fire 1, Fire 2] (iceInit exampleTransport) =
     \<lparr>transport = Some exampleTransport, ice = \<lparr>timer = Some 2, restarting = True\<rparr>,
      clock = 8000, pending = [], nextTimer = 3,
      inFlight = [(exampleTransport, 4000)], issued = [(2000, ''t1''), (8000, ''t1'')]\<rparr>"
  by (simp add: run_def connectionstatechange_def restartIce_def clearTimeout_def
      setTimeout_def iceInit_def Let_def fire_def runCallback_def settle_def exampleTransport_def)

text \<open>
  C4 as stated fails. The connection of the transport fails at time 0; the attempt made
  at 2000 ms fails at once. The only timer then set is due at 4000 ms and sends nothing:
  it calls \<open>restartIce\<close> with the doubled delay, which sets the timer of the next
  attempt 4000 ms later. The next request goes out at 8000 ms, which is 6 s after the
  failure and not 4 s.
\<close>

theorem restartIce_four_seconds_counterexample:
  "clock (run [StateChange ''failed'', Fire 0, Settle 0 False] (iceInit exampleTransport)) = 2000
   \<and> pending (run [StateChange ''failed'', Fire 0, Settle 0 False] (iceInit exampleTransport)) =
       [(1, 4000, Retry exampleTransport 2000)]
   \<and> issued (run [StateChange ''failed'', Fire 0, Settle 0 False, Fire 1]
       (iceInit exampleTransport)) = [(2000, ''t1'')]
   \<and> pending (run [StateChange ''failed'', Fire 0, Settle 0 False, Fire 1]
       (iceInit exampleTransport)) = [(2, 8000, Attempt exampleTransport 4000)]
   \<and> issued (run [StateChange ''failed'', Fire 0, Settle 0 False, Fire 1, Fire 2]
       (iceInit exampleTransport)) = [(2000, ''t1''), (8000, ''t1'')]"
  unfolding run_failed run_retried run_second_attempt by simp

text \<open>
  C4 (as amended). When a restart attempt of \<open>restartIce\<close> with delay \<open>d\<close> fails
  (its request or \<open>transport.restartIce\<close>), the flag \<open>restarting\<close> is cleared and a
  timer is set that, \<open>d\<close> ms after the failure, calls \<open>restartIce\<close> with the delay
  doubled; that call sends no request, it sets the timer of the next attempt \<open>2d\<close> ms
  later. The next \<open>restartIce\<close> request is therefore sent \<open>d + 2d\<close> ms after the
  failure, with the flag set again: 6000 ms after it for the initial delay of 2000 ms.
\<close>

theorem restartIce_backoff:
  "i < length (inFlight s) \<and> inFlight s ! i = (tr, d) \<and>
   (\<forall>(h, due, cb) \<in> set (pending s). h < nextTimer s) \<longrightarrow>
     \<not> restarting (ice (settle i False s))
     \<and> timer (ice (settle i False s)) = Some (nextTimer s)
     \<and> pending (settle i False s) = pending s @ [(nextTimer s, clock s + d, Retry tr d)]
     \<and> clock (fire (nextTimer s) (settle i False s)) = clock s + d
     \<and> issued (fire (nextTimer s) (settle i False s)) = issued s
     \<and> pending (fire (nextTimer s) (settle i False s)) =
         pending s @ [(nextTimer s + 1, clock s + d + d * 2, Attempt tr (d * 2))]
     \<and> issued (fire (nextTimer s + 1) (fire (nextTimer s) (settle i False s))) =
         issued s @ [(clock s + d + d * 2, transportId tr)]
     \<and> restarting (ice (fire (nextTimer s + 1) (fire (nextTimer s) (settle i False s))))
     \<and> (d = 2000 \<longrightarrow>
          issued (fire (nextTimer s + 1) (fire (nextTimer s) (settle i False s))) =
            issued s @ [(clock s + 6000, transportId tr)])"
proof
  assume a: "i < length (inFlight s) \<and> inFlight s ! i = (tr, d) \<and>
    (\<forall>(h, due, cb) \<in> set (pending s). h < nextTimer s)"
  then have fresh: "\<forall>(h, due, cb) \<in> set (pending s). h < nextTimer s" by simp
  define s0 where "s0 = s\<lparr>inFlight := take i (inFlight s) @ drop (i + 1) (inFlight s)\<rparr>"
  have s0: "clock s0 = clock s" "issued s0 = issued s"
    by (simp_all add: s0_def)
  have 1: "settle i False s =
      s0\<lparr>ice := \<lparr>timer = Some (nextTimer s), restarting = False\<rparr>,
         pending := pending s @ [(nextTimer s, clock s0 + d, Retry tr d)],
         nextTimer := nextTimer s + 1\<rparr>"
    using a by (simp add: settle_failed s0_def)
  have 2: "fire (nextTimer s) (settle i False s) =
      s0\<lparr>ice := \<lparr>timer = Some (nextTimer s + 1), restarting = False\<rparr>,
         clock := clock s0 + d,
         pending := pending s @ [(nextTimer s + 1, clock s0 + d + d * 2, Attempt tr (d * 2))],
         nextTimer := nextTimer s + 2\<rparr>"
    unfolding 1 by (rule fire_retry [OF fresh])
  have 3: "fire (nextTimer s + 1) (fire (nextTimer s) (settle i False s)) =
      s0\<lparr>ice := \<lparr>timer = Some (nextTimer s + 1), restarting = True\<rparr>,
         clock := clock s0 + d + d * 2, pending := pending s, nextTimer := nextTimer s + 2,
         issued := issued s0 @ [(clock s0 + d + d * 2, transportId tr)],
         inFlight := inFlight s0 @ [(tr, d * 2)]\<rparr>"
    unfolding 2 by (rule fire_attempt_after_retry [OF fresh])
  show "\<not> restarting (ice (settle i False s))
     \<and> timer (ice (settle i False s)) = Some (nextTimer s)
     \<and> pending (settle i False s) = pending s @ [(nextTimer s, clock s + d, Retry tr d)]
     \<and> clock (fire (nextTimer s) (settle i False s)) = clock s + d
     \<and> issued (fire (nextTimer s) (settle i False s)) = issued s
     \<and> pending (fire (nextTimer s) (settle i False s)) =
         pending s @ [(nextTimer s + 1, clock s + d + d * 2, Attempt tr (d * 2))]
     \<and> issued (fire (nextTimer s + 1) (fire (nextTimer s) (settle i False s))) =
         issued s @ [(clock s + d + d * 2, transportId tr)]
     \<and> restarting (ice (fire (nextTimer s + 1) (fire (nextTimer s) (settle i False s))))
     \<and> (d = 2000 \<longrightarrow>
          issued (fire (nextTimer s + 1) (fire (nextTimer s) (settle i False s))) =
            issued s @ [(clock s + 6000, transportId tr)])"
    unfolding 3 unfolding 2 unfolding 1 by (simp add: s0)
qed

text \<open>The amended C4 at the first attempt of a transport whose connection failed.\<close>

theorem restartIce_backoff_witness:
  "\<not> restarting (ice (settle 0 False
       (run [StateChange ''failed'', Fire 0] (iceInit exampleTransport))))
   \<and> issued (fire 1 (settle 0 False
       (run [StateChange ''failed'', Fire 0] (iceInit exampleTransport)))) = [(2000, ''t1'')]
   \<and> issued (fire 2 (fire 1 (settle 0 False
       (run [StateChange ''failed'', Fire 0] (iceInit exampleTransport))))) =
       [(2000, ''t1''), (8000, ''t1'')]"
proof -
  let ?C = "run [StateChange ''failed'', Fire 0] (iceInit exampleTransport)"
  note T = restartIce_backoff [where s = ?C and i = 0 and tr = exampleTransport and d = 2000]
  have C: "nextTimer ?C = 1" "clock ?C = 2000" "issued ?C = [(2000, ''t1'')]"
    "pending ?C = []" "inFlight ?C = [(exampleTransport, 2000)]"
    by (simp_all add: run_attempting)
  have h: "0 < length (inFlight ?C) \<and> inFlight ?C ! 0 = (exampleTransport, 2000) \<and>
      (\<forall>(h, due, cb) \<in> set (pending ?C). h < nextTimer ?C)"
    by (simp add: C)
  have id: "transportId exampleTransport = ''t1''" by (simp add: exampleTransport_def)
  from T h have
    "\<not> restarting (ice (settle 0 False ?C))
     \<and> issued (fire (nextTimer ?C) (settle 0 False ?C)) = issued ?C
     \<and> issued (fire (nextTimer ?C + 1) (fire (nextTimer ?C) (settle 0 False ?C))) =
         issued ?C @ [(clock ?C + 6000, transportId exampleTransport)]"
    by blast
  then show ?thesis unfolding C id by (simp add: numeral_2_eq_2)
qed

subsection \<open>Facts about close and the disconnect handler\<close>

lemma dispatch_keeps [simp]:
  "client (dispatch a w) = client w" "effects (dispatch a w) = effects w"
  "logger (dispatch a w) = logger w" "store (dispatch a w) = reduce a (store w)"
  by (simp_all add: dispatch_def)

lemma perform_keeps [simp]:
  "client (perform e w) = client w" "store (perform e w) = store w"
  "logger (perform e w) = logger w" "effects (perform e w) = effects w @ [e]"
  by (simp_all add: perform_def)

lemma logline_keeps [simp]:
  "client (logline l w) = client w" "store (logline l w) = store w"
  "effects (logline l w) = effects w" "logger (logline l w) = logger w @ [l]"
  by (simp_all add: logline_def)

lemma closeSendTransport_keeps [simp]:
  "store (closeSendTransport w) = store w"
  "closedFlag (client (closeSendTransport w)) = closedFlag (client w)"
  "signalingSocket (client (closeSendTransport w)) = signalingSocket (client w)"
  "recvTransport (client (closeSendTransport w)) = recvTransport (client w)"
  "sendTransport (client (closeSendTransport w)) =
     map_option (\<lambda>t. t\<lparr>transportClosed := True\<rparr>) (sendTransport (client w))"
  by (simp_all add: closeSendTransport_def split: option.splits)

lemma closeRecvTransport_keeps [simp]:
  "store (closeRecvTransport w) = store w"
  "closedFlag (client (closeRecvTransport w)) = closedFlag (client w)"
  "signalingSocket (client (closeRecvTransport w)) = signalingSocket (client w)"
  "sendTransport (client (closeRecvTransport w)) = sendTransport (client w)"
  "recvTransport (client (closeRecvTransport w)) =
     map_option (\<lambda>t. t\<lparr>transportClosed := True\<rparr>) (recvTransport (client w))"
  by (simp_all add: closeRecvTransport_def split: option.splits)

lemma close_closed: "closedFlag (client w) \<Longrightarrow> close w = (w, None)"
  by (simp add: close_def)

lemma close_sets_flag: "closedFlag (client (fst (close w)))"
  by (simp add: close_def Let_def split: option.splits)

lemma close_first:
  assumes "\<not> closedFlag (client w)" "signalingSocket (client w) = Some sock"
  shows "snd (close w) = None"
    and "signalingSocket (client (fst (close w))) = Some (sock\<lparr>socketClosed := True\<rparr>)"
    and "sendTransport (client (fst (close w))) =
           map_option (\<lambda>t. t\<lparr>transportClosed := True\<rparr>) (sendTransport (client w))"
    and "recvTransport (client (fst (close w))) =
           map_option (\<lambda>t. t\<lparr>transportClosed := True\<rparr>) (recvTransport (client w))"
    and "roomState (store (fst (close w))) = state_closed"
  using assms by (simp_all add: close_def Let_def)

lemma onDisconnect_closed:
  "closedFlag (client w) \<Longrightarrow> onDisconnect reason w = (logline (LogWarn ''disconnect'') w, None)"
  by (simp add: onDisconnect_def Let_def)

lemma disconnectTeardown_roomState:
  "roomState (store (disconnectTeardown w)) = state_connecting"
  by (simp add: disconnectTeardown_def Let_def)

lemma close_no_error: "signalingSocket (client w) \<noteq> None \<Longrightarrow> snd (close w) = None"
  by (auto simp: close_def Let_def)

lemma onDisconnect_roomState:
  assumes "\<not> closedFlag (client w)" "signalingSocket (client w) \<noteq> None"
  shows "roomState (store (fst (onDisconnect reason w))) = state_connecting"
proof (cases "reason = ''io server disconnect''")
  case False
  with assms show ?thesis
    by (simp add: onDisconnect_def Let_def disconnectTeardown_roomState)
next
  case True
  let ?w = "dispatch (Notify ''socket.disconnected'') (logline (LogWarn ''disconnect'') w)"
  have "snd (close ?w) = None" using assms by (simp add: close_no_error)
  then obtain w1 where "close ?w = (w1, None)" by (cases "close ?w") auto
  with True assms show ?thesis
    by (simp add: onDisconnect_def Let_def disconnectTeardown_roomState)
qed

lemma closeAndRemove_keeps [simp]:
  "client (closeAndRemove p w) = client w"
  "roomState (store (closeAndRemove p w)) = roomState (store w)"
  by (simp_all add: closeAndRemove_def)

lemma foldl_closeAndRemove_client [simp]:
  "client (foldl (\<lambda>w p. closeAndRemove p w) w ps) = client w"
  by (induction ps arbitrary: w) simp_all

lemma disconnectTeardown_client:
  "closedFlag (client (disconnectTeardown w)) = closedFlag (client w)"
  "signalingSocket (client (disconnectTeardown w)) = signalingSocket (client w)"
  "micProducer (client (disconnectTeardown w)) = None"
  "webcamProducer (client (disconnectTeardown w)) = None"
  "screenSharingProducer (client (disconnectTeardown w)) = None"
  "extraVideoProducers (client (disconnectTeardown w)) = []"
  "sendTransport (client (disconnectTeardown w)) = None"
  "recvTransport (client (disconnectTeardown w)) = None"
  by (simp_all add: disconnectTeardown_def Let_def closeSendTransport_def closeRecvTransport_def
      split: option.splits)

lemma disconnectTeardown_store:
  "peers (store (disconnectTeardown w)) = []"
  "consumers (store (disconnectTeardown w)) = []"
  "spotlights (store (disconnectTeardown w)) = []"
  by (simp_all add: disconnectTeardown_def Let_def)

lemma onDisconnect_transient:
  assumes "\<not> closedFlag (client w)" "reason \<noteq> ''io server disconnect''"
  shows "onDisconnect reason w = (disconnectTeardown (logline (LogWarn ''disconnect'') w), None)"
  using assms by (simp add: onDisconnect_def Let_def)

lemma exampleWorld_open:
  "\<not> closedFlag (client exampleWorld)"
  "signalingSocket (client exampleWorld) = Some \<lparr>socketClosed = False\<rparr>"
  "roomState (store exampleWorld) = state_connected"
  by (simp_all add: exampleWorld_def)

text \<open>
  C2. A disconnect with the reason \<open>io server disconnect\<close> is to leave the room state
  at \<open>closed\<close>. On a connected client the handler does call \<open>close()\<close>, which sets the
  flag and dispatches \<open>closed\<close>, but the \<open>if\<close> block has no \<open>return\<close>: the handler
  goes on with the teardown of the transient case, whose last statement dispatches
  \<open>connecting\<close>.
\<close>

theorem onDisconnect_server_ends_connecting:
  "roomState (store exampleWorld) = state_connected
   \<and> \<not> closedFlag (client exampleWorld)
   \<and> snd (onDisconnect ''io server disconnect'' exampleWorld) = None
   \<and> closedFlag (client (fst (onDisconnect ''io server disconnect'' exampleWorld)))
   \<and> roomState (store (fst (onDisconnect ''io server disconnect'' exampleWorld))) = state_connecting"
proof -
  let ?w = "dispatch (Notify ''socket.disconnected'') (logline (LogWarn ''disconnect'') exampleWorld)"
  have "snd (close ?w) = None" by (simp add: close_no_error exampleWorld_open)
  then have c: "close ?w = (fst (close ?w), None)" by (cases "close ?w") auto
  have r: "onDisconnect ''io server disconnect'' exampleWorld =
      (disconnectTeardown (fst (close ?w)), None)"
    unfolding onDisconnect_def Let_def
    by (subst c) (simp add: exampleWorld_open)
  show ?thesis
    unfolding r
    by (simp add: exampleWorld_open disconnectTeardown_roomState disconnectTeardown_client
        close_sets_flag)
qed

text \<open>
  C10. \<open>close()\<close> is idempotent. On a client that is not closed and has its signaling
  socket, the first call throws nothing, sets the flag, closes the socket and each
  transport there is, and leaves the room state at \<open>closed\<close>. After any first call the
  flag is set, and with the flag set \<open>close()\<close> returns the world as it is, and the
  handler of \<open>disconnect\<close> only writes its line to the logger.
\<close>

theorem close_idempotent:
  "(\<not> closedFlag (client w) \<and> signalingSocket (client w) = Some sock \<longrightarrow>
      snd (close w) = None
      \<and> closedFlag (client (fst (close w)))
      \<and> signalingSocket (client (fst (close w))) = Some (sock\<lparr>socketClosed := True\<rparr>)
      \<and> sendTransport (client (fst (close w))) =
          map_option (\<lambda>t. t\<lparr>transportClosed := True\<rparr>) (sendTransport (client w))
      \<and> recvTransport (client (fst (close w))) =
          map_option (\<lambda>t. t\<lparr>transportClosed := True\<rparr>) (recvTransport (client w))
      \<and> roomState (store (fst (close w))) = state_closed)
   \<and> close (fst (close w)) = (fst (close w), None)
   \<and> onDisconnect reason (fst (close w)) = (logline (LogWarn ''disconnect'') (fst (close w)), None)
   \<and> (closedFlag (client w) \<longrightarrow>
        close w = (w, None) \<and>
        onDisconnect reason w = (logline (LogWarn ''disconnect'') w, None))"
  using close_first [of w sock] close_sets_flag [of w] close_closed [of "fst (close w)"]
    onDisconnect_closed [of "fst (close w)" reason] close_closed [of w]
    onDisconnect_closed [of w reason]
  by blast

theorem close_idempotent_witness:
  "closedFlag (client (fst (close exampleWorld)))
   \<and> roomState (store (fst (close exampleWorld))) = state_closed
   \<and> sendTransport (client (fst (close exampleWorld))) =
       Some \<lparr>transportId = ''send'', transportClosed = True\<rparr>
   \<and> close (fst (close exampleWorld)) = (fst (close exampleWorld), None)
   \<and> onDisconnect ''transport close'' (fst (close exampleWorld)) =
       (logline (LogWarn ''disconnect'') (fst (close exampleWorld)), None)"
proof -
  note T = close_idempotent [where w = exampleWorld and sock = "\<lparr>socketClosed = False\<rparr>"
      and reason = "''transport close''"]
  note U = close_idempotent [where w = "fst (close exampleWorld)" and sock = "\<lparr>socketClosed = False\<rparr>"
      and reason = "''transport close''"]
  have h: "\<not> closedFlag (client exampleWorld) \<and>
      signalingSocket (client exampleWorld) = Some \<lparr>socketClosed = False\<rparr>"
    by (simp add: exampleWorld_open)
  have s: "sendTransport (client exampleWorld) = Some \<lparr>transportId = ''send'', transportClosed = False\<rparr>"
    by (simp add: exampleWorld_def)
  from T h have 1: "closedFlag (client (fst (close exampleWorld)))"
    and 2: "roomState (store (fst (close exampleWorld))) = state_closed"
    and 3: "sendTransport (client (fst (close exampleWorld))) =
          map_option (\<lambda>t. t\<lparr>transportClosed := True\<rparr>) (sendTransport (client exampleWorld))"
    by blast+
  from U 1 have 4: "close (fst (close exampleWorld)) = (fst (close exampleWorld), None)"
    and 5: "onDisconnect ''transport close'' (fst (close exampleWorld)) =
       (logline (LogWarn ''disconnect'') (fst (close exampleWorld)), None)"
    by blast+
  from 1 2 3 4 5 show ?thesis by (simp add: s)
qed

subsection \<open>Facts about the microphone methods\<close>

lemma request_keeps [simp]:
  "client (snd (request cfg net m d w)) = client w"
  "store (snd (request cfg net m d w)) = store w"
  "logger (snd (request cfg net m d w)) = logger w"
  "effects (snd (request cfg net m d w)) = effects w @ [Request m d]"
  by (simp_all add: request_def)

lemma muteMic_result:
  assumes "micProducer (client w) = Some p"
  shows "snd (muteMic cfg net w) = None"
    and "client (fst (muteMic cfg net w)) = (client w)\<lparr>micProducer := Some (p\<lparr>producer_paused := True\<rparr>)\<rparr>"
    and "effects (fst (muteMic cfg net w)) =
           effects w @ [ProducerPause (producer_id p), Request ''pauseProducer'' (producer_id p)]"
    and "updateMicCalls (fst (muteMic cfg net w)) = updateMicCalls w"
    and "map fst (producers (store (fst (muteMic cfg net w)))) = map fst (producers (store w))"
proof -
  let ?w1 = "perform (ProducerPause (producer_id p))
      ((logline (LogDebug ''muteMic()'') w)
         \<lparr>client := (client w)\<lparr>micProducer := Some (p\<lparr>producer_paused := True\<rparr>)\<rparr>\<rparr>)"
  obtain o' w2 where r: "request cfg net ''pauseProducer'' (producer_id p) ?w1 = (o', w2)"
    by (cases "request cfg net ''pauseProducer'' (producer_id p) ?w1")
  have w2: "w2 = snd (request cfg net ''pauseProducer'' (producer_id p) ?w1)"
    using r by simp
  have m: "muteMic cfg net w =
      (case o' of
         Resolved r \<Rightarrow> (dispatch (SetAudioMuted True) (dispatch (SetProducerPaused (producer_id p)) w2), None)
       | Rejected e \<Rightarrow> (dispatch (Notify ''devices.microphoneMuteError'')
                          (logline (LogError ''muteMic()'' e) w2), None))"
    using assms r by (simp add: muteMic_def Let_def)
  show "snd (muteMic cfg net w) = None"
    unfolding m by (cases o') simp_all
  show "client (fst (muteMic cfg net w)) = (client w)\<lparr>micProducer := Some (p\<lparr>producer_paused := True\<rparr>)\<rparr>"
    unfolding m w2 by (cases o') simp_all
  show "effects (fst (muteMic cfg net w)) =
      effects w @ [ProducerPause (producer_id p), Request ''pauseProducer'' (producer_id p)]"
    unfolding m w2 by (cases o') simp_all
  show "updateMicCalls (fst (muteMic cfg net w)) = updateMicCalls w"
    unfolding m w2 by (cases o') (simp_all add: updateMicCalls_def)
  show "map fst (producers (store (fst (muteMic cfg net w)))) = map fst (producers (store w))"
    unfolding m w2 by (cases o') (simp_all add: comp_def case_prod_beta)
qed

lemma unmuteMic_result:
  assumes "micProducer (client w) = Some p"
  shows "client (unmuteMic cfg net acquire w) =
           (client w)\<lparr>micProducer := Some (p\<lparr>producer_paused := False\<rparr>)\<rparr>"
    and "effects (unmuteMic cfg net acquire w) =
           effects w @ [ProducerResume (producer_id p), Request ''resumeProducer'' (producer_id p)]"
    and "updateMicCalls (unmuteMic cfg net acquire w) = updateMicCalls w"
    and "map fst (producers (store (unmuteMic cfg net acquire w))) = map fst (producers (store w))"
proof -
  let ?w1 = "perform (ProducerResume (producer_id p))
      ((logline (LogDebug ''unmuteMic()'') w)
         \<lparr>client := (client w)\<lparr>micProducer := Some (p\<lparr>producer_paused := False\<rparr>)\<rparr>\<rparr>)"
  obtain o' w2 where r: "request cfg net ''resumeProducer'' (producer_id p) ?w1 = (o', w2)"
    by (cases "request cfg net ''resumeProducer'' (producer_id p) ?w1")
  have w2: "w2 = snd (request cfg net ''resumeProducer'' (producer_id p) ?w1)"
    using r by simp
  have m: "unmuteMic cfg net acquire w =
      (case o' of
         Resolved r \<Rightarrow> dispatch (SetAudioMuted False) (dispatch (SetProducerResumed (producer_id p)) w2)
       | Rejected e \<Rightarrow> dispatch (Notify ''devices.microphoneUnMuteError'')
                          (logline (LogError ''unmuteMic()'' e) w2))"
    using assms r by (simp add: unmuteMic_def Let_def)
  show "client (unmuteMic cfg net acquire w) =
      (client w)\<lparr>micProducer := Some (p\<lparr>producer_paused := False\<rparr>)\<rparr>"
    unfolding m w2 by (cases o') simp_all
  show "effects (unmuteMic cfg net acquire w) =
      effects w @ [ProducerResume (producer_id p), Request ''resumeProducer'' (producer_id p)]"
    unfolding m w2 by (cases o') simp_all
  show "updateMicCalls (unmuteMic cfg net acquire w) = updateMicCalls w"
    unfolding m w2 by (cases o') (simp_all add: updateMicCalls_def)
  show "map fst (producers (store (unmuteMic cfg net acquire w))) = map fst (producers (store w))"
    unfolding m w2 by (cases o') (simp_all add: comp_def case_prod_beta)
qed

lemma unmuteMic_delegates:
  "micProducer (client w) = None \<Longrightarrow>
   unmuteMic cfg net acquire w =
     updateMic acquire \<lparr>start = True, restart = True, newDeviceId = None\<rparr>
       (logline (LogDebug ''unmuteMic()'') w)"
  by (simp add: unmuteMic_def micDefaults_def Let_def)

text \<open>
  C9. In a state with a mic producer, \<open>muteMic()\<close> followed by \<open>unmuteMic()\<close> leaves
  that producer in place and resumed, whatever the answers to the two requests: the
  client differs from the one before at most in the producer's \<open>paused\<close> flag, which is
  false; the calls made outside are the pause and the resume of the producer and the
  requests \<open>pauseProducer\<close> and \<open>resumeProducer\<close>; \<open>updateMic\<close> is not entered, and
  the store holds the producers it held. \<open>unmuteMic()\<close> with a producer does not enter
  \<open>updateMic\<close>; without one it is the call \<open>updateMic({ start: true })\<close>.
\<close>

theorem muteMic_unmuteMic_roundtrip:
  "(micProducer (client w) = Some p \<longrightarrow>
      snd (muteMic cfg net w) = None
      \<and> client (unmuteMic cfg net acquire (fst (muteMic cfg net w))) =
          (client w)\<lparr>micProducer := Some (p\<lparr>producer_paused := False\<rparr>)\<rparr>
      \<and> effects (unmuteMic cfg net acquire (fst (muteMic cfg net w))) =
          effects w @ [ProducerPause (producer_id p), Request ''pauseProducer'' (producer_id p),
                       ProducerResume (producer_id p), Request ''resumeProducer'' (producer_id p)]
      \<and> updateMicCalls (unmuteMic cfg net acquire (fst (muteMic cfg net w))) = updateMicCalls w
      \<and> map fst (producers (store (unmuteMic cfg net acquire (fst (muteMic cfg net w))))) =
          map fst (producers (store w))
      \<and> updateMicCalls (unmuteMic cfg net acquire w) = updateMicCalls w)
   \<and> (micProducer (client w) = None \<longrightarrow>
        unmuteMic cfg net acquire w =
          updateMic acquire \<lparr>start = True, restart = True, newDeviceId = None\<rparr>
            (logline (LogDebug ''unmuteMic()'') w))"
proof (intro conjI impI)
  assume p: "micProducer (client w) = Some p"
  let ?m = "fst (muteMic cfg net w)"
  have mp: "micProducer (client ?m) = Some (p\<lparr>producer_paused := True\<rparr>)"
    using muteMic_result(2) [OF p, of cfg net] by simp
  show "snd (muteMic cfg net w) = None" by (rule muteMic_result(1) [OF p])
  show "client (unmuteMic cfg net acquire ?m) =
      (client w)\<lparr>micProducer := Some (p\<lparr>producer_paused := False\<rparr>)\<rparr>"
    using unmuteMic_result(1) [OF mp, of cfg net acquire] muteMic_result(2) [OF p, of cfg net]
    by simp
  show "effects (unmuteMic cfg net acquire ?m) =
      effects w @ [ProducerPause (producer_id p), Request ''pauseProducer'' (producer_id p),
                   ProducerResume (producer_id p), Request ''resumeProducer'' (producer_id p)]"
    using unmuteMic_result(2) [OF mp, of cfg net acquire] muteMic_result(3) [OF p, of cfg net]
    by simp
  show "updateMicCalls (unmuteMic cfg net acquire ?m) = updateMicCalls w"
    using unmuteMic_result(3) [OF mp, of cfg net acquire] muteMic_result(4) [OF p, of cfg net]
    by simp
  show "map fst (producers (store (unmuteMic cfg net acquire ?m))) = map fst (producers (store w))"
    using unmuteMic_result(4) [OF mp, of cfg net acquire] muteMic_result(5) [OF p, of cfg net]
    by simp
  show "updateMicCalls (unmuteMic cfg net acquire w) = updateMicCalls w"
    by (rule unmuteMic_result(3) [OF p])
next
  assume "micProducer (client w) = None"
  then show "unmuteMic cfg net acquire w =
      updateMic acquire \<lparr>start = True, restart = True, newDeviceId = None\<rparr>
        (logline (LogDebug ''unmuteMic()'') w)"
    by (rule unmuteMic_delegates)
qed

lemma exampleWorld_mic:
  "micProducer (client exampleWorld) =
     Some \<lparr>producer_id = ''mic1'', producer_paused = False, producer_closed = False,
           producer_track = ''track1''\<rparr>"
  "logger exampleWorld = []" "effects exampleWorld = []"
  "mediasoupDevice (client exampleWorld) = Some \<lparr>canProduce = (\<lambda>k. True)\<rparr>"
  by (simp_all add: exampleWorld_def)

text \<open>C9 at the example client, and at the same client without its mic producer.\<close>

theorem muteMic_unmuteMic_roundtrip_witness:
  "micProducer (client (unmuteMic exampleConfig promptNetwork noDevices
       (fst (muteMic exampleConfig promptNetwork exampleWorld)))) =
     Some \<lparr>producer_id = ''mic1'', producer_paused = False, producer_closed = False,
           producer_track = ''track1''\<rparr>
   \<and> updateMicCalls (unmuteMic exampleConfig promptNetwork noDevices
       (fst (muteMic exampleConfig promptNetwork exampleWorld))) = 0
   \<and> updateMicCalls (unmuteMic exampleConfig promptNetwork noDevices
       (exampleWorld\<lparr>client := (client exampleWorld)\<lparr>micProducer := None\<rparr>\<rparr>)) = 1"
proof -
  let ?p = "\<lparr>producer_id = ''mic1'', producer_paused = False, producer_closed = False,
           producer_track = ''track1''\<rparr>"
  let ?w0 = "exampleWorld\<lparr>client := (client exampleWorld)\<lparr>micProducer := None\<rparr>\<rparr>"
  note T = muteMic_unmuteMic_roundtrip
    [where w = exampleWorld and p = ?p and cfg = exampleConfig and net = promptNetwork
       and acquire = noDevices]
  note U = muteMic_unmuteMic_roundtrip
    [where w = ?w0 and p = ?p and cfg = exampleConfig and net = promptNetwork
       and acquire = noDevices]
  have c0: "updateMicCalls exampleWorld = 0"
    by (simp add: updateMicCalls_def exampleWorld_mic)
  from T exampleWorld_mic(1) have
    "client (unmuteMic exampleConfig promptNetwork noDevices
        (fst (muteMic exampleConfig promptNetwork exampleWorld))) =
       (client exampleWorld)\<lparr>micProducer := Some (?p\<lparr>producer_paused := False\<rparr>)\<rparr>"
    and 2: "updateMicCalls (unmuteMic exampleConfig promptNetwork noDevices
        (fst (muteMic exampleConfig promptNetwork exampleWorld))) = updateMicCalls exampleWorld"
    by blast+
  then have 1: "micProducer (client (unmuteMic exampleConfig promptNetwork noDevices
       (fst (muteMic exampleConfig promptNetwork exampleWorld)))) = Some ?p"
    by simp
  have "micProducer (client ?w0) = None" by simp
  with U have "unmuteMic exampleConfig promptNetwork noDevices ?w0 =
      updateMic noDevices \<lparr>start = True, restart = True, newDeviceId = None\<rparr>
        (logline (LogDebug ''unmuteMic()'') ?w0)"
    by blast
  then have 3: "updateMicCalls (unmuteMic exampleConfig promptNetwork noDevices ?w0) = 1"
    by (simp add: updateMic_def updateMicCatch_def noDevices_def truthy_def Let_def
        updateMicCalls_def exampleWorld_mic)
  from 1 2 3 c0 show ?thesis by simp
qed

lemma updateMic_guard:
  assumes "mediasoupDevice (client w) = Some dev" "canProduce dev audio"
    "newDeviceId args = Some d" "d \<noteq> []" "\<not> restart args"
  shows "updateMic acquire args w =
     dispatch (SetAudioInProgress False)
       (dispatch (Notify ''devices.microphoneError'')
          (logline (LogError ''updateMic()'' (Error ''changing device requires restart''))
             (logline (LogDebug ''updateMic()'') w)))"
  using assms by (simp add: updateMic_def updateMicCatch_def truthy_def Let_def)

lemma updateMic_cannot_produce:
  assumes "mediasoupDevice (client w) = Some dev" "\<not> canProduce dev audio"
  shows "updateMic acquire args w =
     dispatch (SetAudioInProgress False)
       (dispatch (Notify ''devices.microphoneError'')
          (logline (LogError ''updateMic()'' (Error ''cannot produce audio''))
             (logline (LogDebug ''updateMic()'') w)))"
  using assms by (simp add: updateMic_def updateMicCatch_def Let_def)

text \<open>
  C8 as stated fails: on a device that cannot produce audio, the call
  \<open>updateMic({ newDeviceId: 'dev2', restart: false })\<close> fails at the first check of the
  \<open>try\<close> block, with \<open>cannot produce audio\<close>; the error \<open>changing device requires
  restart\<close> is not raised.
\<close>

theorem updateMic_other_error_counterexample:
  "newDeviceId changeDeviceArgs = Some ''dev2'' \<and> \<not> restart changeDeviceArgs
   \<and> logger (updateMic noDevices changeDeviceArgs audiolessWorld) =
       [LogDebug ''updateMic()'', LogError ''updateMic()'' (Error ''cannot produce audio'')]
   \<and> LogError ''updateMic()'' (Error ''changing device requires restart'') \<notin>
       set (logger (updateMic noDevices changeDeviceArgs audiolessWorld))"
proof -
  have d: "mediasoupDevice (client audiolessWorld) = Some \<lparr>canProduce = (\<lambda>k. k = video)\<rparr>"
    by (simp add: audiolessWorld_def)
  have l: "logger audiolessWorld = []"
    by (simp add: audiolessWorld_def exampleWorld_mic)
  have "logger (updateMic noDevices changeDeviceArgs audiolessWorld) =
      [LogDebug ''updateMic()'', LogError ''updateMic()'' (Error ''cannot produce audio'')]"
    by (subst updateMic_cannot_produce [OF d]) (simp_all add: l)
  then show ?thesis by (simp add: changeDeviceArgs_def)
qed

text \<open>
  C8 (as amended). For a call \<open>updateMic({ newDeviceId: d, restart: false })\<close> with a
  device id \<open>d\<close> that is not empty, on a device that can produce audio, the operation
  fails with \<open>changing device requires restart\<close>: the error is logged, the notification
  \<open>devices.microphoneError\<close> is dispatched and the in-progress flag is cleared, nothing
  is thrown to the caller, and the client (the mic producer and its track with it) is
  what it was, with no call made outside it, so no acquisition of media, no
  \<open>produce\<close> and no \<open>disableMic\<close>. On a device that cannot produce audio the call fails
  before that check, with \<open>cannot produce audio\<close>, and leaves the client untouched in
  the same way.
\<close>

theorem updateMic_device_change_needs_restart:
  "(mediasoupDevice (client w) = Some dev \<and> canProduce dev audio \<and>
    newDeviceId args = Some d \<and> d \<noteq> [] \<and> \<not> restart args \<longrightarrow>
      updateMic acquire args w =
        dispatch (SetAudioInProgress False)
          (dispatch (Notify ''devices.microphoneError'')
             (logline (LogError ''updateMic()'' (Error ''changing device requires restart''))
                (logline (LogDebug ''updateMic()'') w)))
      \<and> client (updateMic acquire args w) = client w
      \<and> effects (updateMic acquire args w) = effects w
      \<and> producers (store (updateMic acquire args w)) = producers (store w)
      \<and> notifications (store (updateMic acquire args w)) =
          notifications (store w) @ [''devices.microphoneError''])
   \<and> (mediasoupDevice (client w) = Some dev \<and> \<not> canProduce dev audio \<longrightarrow>
      updateMic acquire args w =
        dispatch (SetAudioInProgress False)
          (dispatch (Notify ''devices.microphoneError'')
             (logline (LogError ''updateMic()'' (Error ''cannot produce audio''))
                (logline (LogDebug ''updateMic()'') w)))
      \<and> client (updateMic acquire args w) = client w
      \<and> effects (updateMic acquire args w) = effects w
      \<and> producers (store (updateMic acquire args w)) = producers (store w))"
proof (intro conjI impI)
  assume a: "mediasoupDevice (client w) = Some dev \<and> canProduce dev audio \<and>
    newDeviceId args = Some d \<and> d \<noteq> [] \<and> \<not> restart args"
  then have g: "updateMic acquire args w =
      dispatch (SetAudioInProgress False)
        (dispatch (Notify ''devices.microphoneError'')
           (logline (LogError ''updateMic()'' (Error ''changing device requires restart''))
              (logline (LogDebug ''updateMic()'') w)))"
    using updateMic_guard [of w dev args d acquire] by blast
  show "updateMic acquire args w =
      dispatch (SetAudioInProgress False)
        (dispatch (Notify ''devices.microphoneError'')
           (logline (LogError ''updateMic()'' (Error ''changing device requires restart''))
              (logline (LogDebug ''updateMic()'') w)))"
    by (rule g)
  show "client (updateMic acquire args w) = client w" unfolding g by simp
  show "effects (updateMic acquire args w) = effects w" unfolding g by simp
  show "producers (store (updateMic acquire args w)) = producers (store w)" unfolding g by simp
  show "notifications (store (updateMic acquire args w)) =
      notifications (store w) @ [''devices.microphoneError'']"
    unfolding g by simp
next
  assume a: "mediasoupDevice (client w) = Some dev \<and> \<not> canProduce dev audio"
  then have g: "updateMic acquire args w =
      dispatch (SetAudioInProgress False)
        (dispatch (Notify ''devices.microphoneError'')
           (logline (LogError ''updateMic()'' (Error ''cannot produce audio''))
              (logline (LogDebug ''updateMic()'') w)))"
    using updateMic_cannot_produce [of w dev acquire args] by blast
  show "updateMic acquire args w =
      dispatch (SetAudioInProgress False)
        (dispatch (Notify ''devices.microphoneError'')
           (logline (LogError ''updateMic()'' (Error ''cannot produce audio''))
              (logline (LogDebug ''updateMic()'') w)))"
    by (rule g)
  show "client (updateMic acquire args w) = client w" unfolding g by simp
  show "effects (updateMic acquire args w) = effects w" unfolding g by simp
  show "producers (store (updateMic acquire args w)) = producers (store w)" unfolding g by simp
qed

text \<open>The amended C8 at the example client, and at the client that cannot produce audio.\<close>

theorem updateMic_device_change_needs_restart_witness:
  "logger (updateMic noDevices changeDeviceArgs exampleWorld) =
     [LogDebug ''updateMic()'',
      LogError ''updateMic()'' (Error ''changing device requires restart'')]
   \<and> client (updateMic noDevices changeDeviceArgs exampleWorld) = client exampleWorld
   \<and> effects (updateMic noDevices changeDeviceArgs exampleWorld) = []
   \<and> client (updateMic noDevices changeDeviceArgs audiolessWorld) = client audiolessWorld"
proof -
  note T = updateMic_device_change_needs_restart
    [where w = exampleWorld and dev = "\<lparr>canProduce = (\<lambda>k. True)\<rparr>" and args = changeDeviceArgs
       and d = "''dev2''" and acquire = noDevices]
  note U = updateMic_device_change_needs_restart
    [where w = audiolessWorld and dev = "\<lparr>canProduce = (\<lambda>k. k = video)\<rparr>"
       and args = changeDeviceArgs and d = "''dev2''" and acquire = noDevices]
  have h: "mediasoupDevice (client exampleWorld) = Some \<lparr>canProduce = (\<lambda>k. True)\<rparr> \<and>
      canProduce \<lparr>canProduce = (\<lambda>k. True)\<rparr> audio \<and>
      newDeviceId changeDeviceArgs = Some ''dev2'' \<and> ''dev2'' \<noteq> [] \<and> \<not> restart changeDeviceArgs"
    by (simp add: exampleWorld_mic changeDeviceArgs_def)
  have k: "mediasoupDevice (client audiolessWorld) = Some \<lparr>canProduce = (\<lambda>k. k = video)\<rparr> \<and>
      \<not> canProduce \<lparr>canProduce = (\<lambda>k. k = video)\<rparr> audio"
    by (simp add: audiolessWorld_def)
  from T h have e: "updateMic noDevices changeDeviceArgs exampleWorld =
        dispatch (SetAudioInProgress False)
          (dispatch (Notify ''devices.microphoneError'')
             (logline (LogError ''updateMic()'' (Error ''changing device requires restart''))
                (logline (LogDebug ''updateMic()'') exampleWorld)))"
    and 2: "client (updateMic noDevices changeDeviceArgs exampleWorld) = client exampleWorld"
    and "effects (updateMic noDevices changeDeviceArgs exampleWorld) = effects exampleWorld"
    by blast+
  then have 3: "effects (updateMic noDevices changeDeviceArgs exampleWorld) = []"
    by (simp add: exampleWorld_mic)
  have 1: "logger (updateMic noDevices changeDeviceArgs exampleWorld) =
     [LogDebug ''updateMic()'',
      LogError ''updateMic()'' (Error ''changing device requires restart'')]"
    unfolding e by (simp add: exampleWorld_mic)
  from U k have 4: "client (updateMic noDevices changeDeviceArgs audiolessWorld) = client audiolessWorld"
    by blast
  from 1 2 3 4 show ?thesis by blast
qed

subsection \<open>Facts about the consumers and the spotlights\<close>


lemma setPaused_keeps [simp]:
  "store (setPaused cid b w) = store w" "effects (setPaused cid b w) = effects w"
  "logger (setPaused cid b w) = logger w"
  "signalingSocket (client (setPaused cid b w)) = signalingSocket (client w)"
  "consumersMap (client (setPaused cid b w)) =
     map (\<lambda>c. if consumer_id c = cid then c\<lparr>consumer_paused := b\<rparr> else c) (consumersMap (client w))"
  by (simp_all add: setPaused_def)

lemma getConsumer_simps [simp]:
  "getConsumer cid (logline l w) = getConsumer cid w"
  "getConsumer cid (dispatch a w) = getConsumer cid w"
  "getConsumer cid (perform e w) = getConsumer cid w"
  by (simp_all add: getConsumer_def)













lemma spotlitC_keeps [simp]:
  "consumer_id (spotlitC sp c) = consumer_id c" "consumer_kind (spotlitC sp c) = consumer_kind c"
  "appData_peerId (spotlitC sp c) = appData_peerId c"
  "consumer_closed (spotlitC sp c) = consumer_closed c"
  by (simp_all add: spotlitC_def)

lemma spotlit_keeps [simp]:
  "consumerId (spotlit sp sc) = consumerId sc" "kind (spotlit sp sc) = kind sc"
  "peerId (spotlit sp sc) = peerId sc" "spotlit sp (spotlit sp sc) = spotlit sp sc"
  by (simp_all add: spotlit_def)













end
